theory Spec2Isabelle
  imports Complex_Main "HOL-Library.Sublist" "HOL-Library.Multiset"
begin

section \<open>Python values\<close>

text \<open>
  The program is \<^verbatim>\<open>app.py\<close>, a CV generator: it scores and selects experience and
  project records against a job profile, asks a text-completion service for bullet
  points, and normalises the replies. Python strings are modelled as \<^typ>\<open>string\<close>,
  a list of 8-bit characters: an ASCII text is the list of its characters, any other
  text the list of the bytes of its UTF-8 encoding. The functions \<open>is_space\<close> and
  \<open>lower\<close> below are \<^verbatim>\<open>str.isspace\<close> and \<^verbatim>\<open>str.lower\<close> on ASCII text; a byte above
  127 is neither white space nor upper case for them. Python also strips white space
  outside ASCII (the no-break space U+00A0), and its \<^verbatim>\<open>str.lower\<close> follows the
  Unicode tables and depends on the context at a capital sigma. Where a property of the
  scores depends on that, the lower-casing function is a parameter of the score.
\<close>

datatype py_error =
    KeyError string
  | IndexError
  | TypeError
  | AttributeError
  | JSONDecodeError
  | GatewayError

text \<open>\<^verbatim>\<open>str.isspace\<close> on ASCII: tab to carriage return, the four separators
  0x1C to 0x1F, and the blank. The same set is \<^verbatim>\<open>\s\<close> of \<^verbatim>\<open>re\<close>.\<close>

definition is_space :: "char \<Rightarrow> bool" where
  "is_space c = (let n = (of_char c :: nat) in (9 \<le> n \<and> n \<le> 13) \<or> (28 \<le> n \<and> n \<le> 32))"

definition lower_char :: "char \<Rightarrow> char" where
  "lower_char c =
     (let n = (of_char c :: nat) in if 65 \<le> n \<and> n \<le> 90 then char_of (n + 32) else c)"

text \<open>\<^verbatim>\<open>s.lower()\<close>\<close>

definition lower :: "string \<Rightarrow> string" where
  "lower s = map lower_char s"

text \<open>\<^verbatim>\<open>sub in s\<close> on strings: \<^verbatim>\<open>sub\<close> occurs in \<^verbatim>\<open>s\<close> as a contiguous run.\<close>

definition str_in :: "string \<Rightarrow> string \<Rightarrow> bool" where
  "str_in sub s = sublist sub s"

text \<open>\<^verbatim>\<open>any(k in s for k in keywords)\<close>\<close>

definition any_in :: "string list \<Rightarrow> string \<Rightarrow> bool" where
  "any_in keywords s = list_ex (\<lambda>k. str_in k s) keywords"

text \<open>\<^verbatim>\<open>s.strip()\<close> and \<^verbatim>\<open>s.strip(c)\<close> for a single character \<^verbatim>\<open>c\<close>.\<close>

definition py_strip :: "string \<Rightarrow> string" where
  "py_strip s = rev (dropWhile is_space (rev (dropWhile is_space s)))"

definition py_strip_char :: "char \<Rightarrow> string \<Rightarrow> string" where
  "py_strip_char c s = rev (dropWhile (\<lambda>x. x = c) (rev (dropWhile (\<lambda>x. x = c) s)))"

text \<open>\<^verbatim>\<open>xs[:k]\<close>: a negative bound counts from the end.\<close>

definition slice_to :: "int \<Rightarrow> 'a list \<Rightarrow> 'a list" where
  "slice_to k xs = (if 0 \<le> k then take (nat k) xs else take (nat (int (length xs) + k)) xs)"

text \<open>\<^verbatim>\<open>d.get(key, default)\<close> for a key that may be absent.\<close>

definition get_or :: "'a option \<Rightarrow> 'a \<Rightarrow> 'a" where
  "get_or field dflt = (case field of None \<Rightarrow> dflt | Some v \<Rightarrow> v)"

text \<open>\<^verbatim>\<open>d[key]\<close>: an absent key raises \<^verbatim>\<open>KeyError\<close>.\<close>

definition subscript :: "'a option \<Rightarrow> string \<Rightarrow> py_error + 'a" where
  "subscript field key = (case field of None \<Rightarrow> Inl (KeyError key) | Some v \<Rightarrow> Inr v)"

text \<open>\<^verbatim>\<open>str(n)\<close> for an integer: decimal digits, with a minus sign below zero.\<close>

fun digits :: "nat \<Rightarrow> string" where
  "digits n = (if n < 10 then [char_of (48 + n)] else digits (n div 10) @ [char_of (48 + n mod 10)])"

declare digits.simps [simp del]

definition str_int :: "int \<Rightarrow> string" where
  "str_int n = (if n < 0 then CHR ''-'' # digits (nat (- n)) else digits (nat n))"

subsection \<open>What \<^verbatim>\<open>json.loads\<close> returns\<close>

datatype pyfloat = Finite real | Infinite bool | NaN

datatype json =
    JNull
  | JBool bool
  | JInt int
  | JFloat pyfloat
  | JStr string
  | JList "json list"
  | JDict "(string \<times> json) list"

text \<open>Truth value of a parsed object, as \<^verbatim>\<open>if parsed\<close> tests it.\<close>

fun truthy :: "json \<Rightarrow> bool" where
  "truthy JNull = False"
| "truthy (JBool b) = b"
| "truthy (JInt n) = (n \<noteq> 0)"
| "truthy (JFloat f) = (f \<noteq> Finite 0)"
| "truthy (JStr s) = (s \<noteq> [])"
| "truthy (JList xs) = (xs \<noteq> [])"
| "truthy (JDict kvs) = (kvs \<noteq> [])"

definition str_list :: "string list \<Rightarrow> json" where
  "str_list xs = JList (map JStr xs)"

section \<open>Response normaliser\<close>

text \<open>
  \<^verbatim>\<open>re.sub(r'^FENCE\s*', '', text, flags=re.MULTILINE)\<close> for a literal, non-empty
  \<^verbatim>\<open>FENCE\<close>. The flag \<open>bol\<close> says that the scan stands at the start of the text or
  right after a line feed of the original text, where \<^verbatim>\<open>^\<close> matches. A match takes the
  fence and the longest run of white space after it; the scan goes on behind the match.
\<close>

function re_sub_open_fence :: "string \<Rightarrow> bool \<Rightarrow> string \<Rightarrow> string" where
  "re_sub_open_fence fence bol s =
     (if s = [] then []
      else if bol \<and> fence \<noteq> [] \<and> prefix fence s
      then re_sub_open_fence fence
             (last (fence @ takeWhile is_space (drop (length fence) s)) = CHR 0x0A)
             (dropWhile is_space (drop (length fence) s))
      else hd s # re_sub_open_fence fence (hd s = CHR 0x0A) (tl s))"
  by pat_completeness auto
termination
proof (relation "measure (\<lambda>(fence, bol, s). length s)")
  show "wf (measure (\<lambda>(fence, bol, s). length s))"
    by simp
next
  fix fence :: string and bol :: bool and s :: string
  assume "s \<noteq> []" and "bol \<and> fence \<noteq> [] \<and> prefix fence s"
  then have "length (drop (length fence) s) < length s"
    by (cases fence) auto
  moreover have "length (dropWhile is_space (drop (length fence) s)) \<le> length (drop (length fence) s)"
    by (rule length_dropWhile_le)
  ultimately show "((fence,
            last (fence @ takeWhile is_space (drop (length fence) s)) = CHR 0x0A,
            dropWhile is_space (drop (length fence) s)),
           fence, bol, s) \<in> measure (\<lambda>(fence, bol, s). length s)"
    by simp
next
  fix fence :: string and bol :: bool and s :: string
  assume "s \<noteq> []"
  then show "((fence, hd s = CHR 0x0A, tl s), fence, bol, s) \<in> measure (\<lambda>(fence, bol, s). length s)"
    by (cases s) auto
qed

declare re_sub_open_fence.simps [simp del]

text \<open>
  \<^verbatim>\<open>\s*```$\<close> with \<^verbatim>\<open>re.MULTILINE\<close> matches at a position when the longest run of
  white space from there is followed by three backticks that end the text or stand
  before a line feed.
\<close>

definition close_fence_match :: "string \<Rightarrow> bool" where
  "close_fence_match s =
     (let r = dropWhile is_space s in
      prefix ''```'' r \<and> (drop 3 r = [] \<or> hd (drop 3 r) = CHR 0x0A))"

function re_sub_close_fence :: "string \<Rightarrow> string" where
  "re_sub_close_fence s =
     (if s = [] then []
      else if close_fence_match s
      then re_sub_close_fence (drop 3 (dropWhile is_space s))
      else hd s # re_sub_close_fence (tl s))"
  by pat_completeness auto
termination
proof (relation "measure length")
  show "wf (measure length)"
    by simp
next
  fix s :: string
  assume "s \<noteq> []" and m: "close_fence_match s"
  from m have "prefix ''```'' (dropWhile is_space s)"
    by (simp add: close_fence_match_def Let_def)
  then have "dropWhile is_space s \<noteq> []"
    by (cases "dropWhile is_space s") simp_all
  then have "length (drop 3 (dropWhile is_space s)) < length (dropWhile is_space s)"
    by simp
  also have "\<dots> \<le> length s"
    by (rule length_dropWhile_le)
  finally show "(drop 3 (dropWhile is_space s), s) \<in> measure length"
    by simp
next
  fix s :: string
  assume "s \<noteq> []"
  then show "(tl s, s) \<in> measure length"
    by (cases s) auto
qed

declare re_sub_close_fence.simps [simp del]

text \<open>
  \<^verbatim>\<open>re.search\<close> of an opening character, anything (\<^verbatim>\<open>re.DOTALL\<close>, greedy) and a
  closing character: from the first opening character to the last closing character
  behind it, when there is one.
\<close>

definition re_search_span :: "char \<Rightarrow> char \<Rightarrow> string \<Rightarrow> string option" where
  "re_search_span l r text =
     (let t = dropWhile (\<lambda>c. c \<noteq> l) text in
      if t \<noteq> [] \<and> r \<in> set (tl t) then Some (rev (dropWhile (\<lambda>c. c \<noteq> r) (rev t)))
      else None)"

definition clean_json_response :: "string \<Rightarrow> string" where
  "clean_json_response text =
     (if text = [] then []
      else
        let text1 = re_sub_open_fence ''```json'' True text;
            text2 = re_sub_open_fence ''```'' True text1;
            text3 = re_sub_close_fence text2
        in case re_search_span (CHR ''{'') (CHR ''}'') text3 of
             Some json_match \<Rightarrow> json_match
           | None \<Rightarrow>
               (case re_search_span (CHR ''['') (CHR '']'') text3 of
                  Some array_match \<Rightarrow> array_match
                | None \<Rightarrow> py_strip text3))"

text \<open>
  \<^verbatim>\<open>json.loads\<close> is a library function: it is a parameter \<open>loads\<close> of the model, a
  function from the text to the parsed object or to the exception it raises.
  \<open>safe_json_parse_try\<close> is the body of the \<^verbatim>\<open>try\<close>; the text is \<open>None\<close> for
  Python's \<^verbatim>\<open>None\<close>.
\<close>

definition safe_json_parse_try ::
  "(string \<Rightarrow> py_error + json) \<Rightarrow> string option \<Rightarrow> json \<Rightarrow> py_error + json" where
  "safe_json_parse_try loads text fallback_data =
     (case text of
        None \<Rightarrow> Inr fallback_data
      | Some t \<Rightarrow>
          if t = [] then Inr fallback_data
          else
            let cleaned_text = clean_json_response t in
            if cleaned_text = [] then Inr fallback_data
            else
              (case loads cleaned_text of
                 Inl e \<Rightarrow> Inl e
               | Inr parsed \<Rightarrow> Inr (if truthy parsed then parsed else fallback_data)))"

text \<open>Both \<^verbatim>\<open>except\<close> clauses return the fallback.\<close>

definition safe_json_parse ::
  "(string \<Rightarrow> py_error + json) \<Rightarrow> string option \<Rightarrow> json \<Rightarrow> py_error + json" where
  "safe_json_parse loads text fallback_data =
     (case safe_json_parse_try loads text fallback_data of
        Inl e \<Rightarrow> Inr fallback_data
      | Inr v \<Rightarrow> Inr v)"

text \<open>
  A sample of \<^verbatim>\<open>json.loads\<close>, for concrete runs: its value on the few texts used
  below, and a decoding error on every other text.
\<close>

definition json_loads_sample :: "string \<Rightarrow> py_error + json" where
  "json_loads_sample s =
     (if s = ''{\"role_type\":\"frontend\"}'' then Inr (JDict [(''role_type'', JStr ''frontend'')])
      else if s = ''[\"a\"]'' then Inr (JList [JStr ''a''])
      else if s = ''[\"a\", \"b\", \"c\"]'' then Inr (JList [JStr ''a'', JStr ''b'', JStr ''c''])
      else if s = ''[1, 2]'' then Inr (JList [JInt 1, JInt 2])
      else if s = ''[]'' then Inr (JList [])
      else if s = ''{}'' then Inr (JDict [])
      else if s = ''null'' then Inr JNull
      else Inl JSONDecodeError)"

section \<open>Records and the requirement profile\<close>

text \<open>
  The records are Python dictionaries with string values, read from a JSON document. A
  field is \<open>None\<close> when the key is absent: \<^verbatim>\<open>get\<close> then takes its default and a
  subscript raises \<^verbatim>\<open>KeyError\<close>. A field is named by its key, behind a prefix for
  the kind of record.
\<close>

record experience =
  exp_company :: "string option"
  exp_role :: "string option"
  exp_duration :: "string option"
  exp_job_type :: "string option"
  exp_description :: "string option"

record project =
  proj_name :: "string option"
  proj_link :: "string option"
  proj_description :: "string option"

record jd_analysis =
  jd_role_type :: "string option"
  jd_seniority_level :: "string option"
  jd_primary_skills :: "string list option"
  jd_key_technologies :: "string list option"
  jd_ats_keywords :: "string list option"
  jd_focus_areas :: "string list option"
  jd_industry_context :: "string option"

section \<open>Relevance selector\<close>

text \<open>
  The loop \<^verbatim>\<open>for tech in tokens: if tech in description_lower: score += points\<close>,
  from the score reached so far.
\<close>

definition add_matches :: "int \<Rightarrow> string list \<Rightarrow> string \<Rightarrow> int \<Rightarrow> int" where
  "add_matches points tokens description_lower score =
     foldl (\<lambda>sc tok. if str_in tok description_lower then sc + points else sc) score tokens"

text \<open>The boost for recent experiences: the first branch that applies.\<close>

definition recency_bonus :: "string \<Rightarrow> int" where
  "recency_bonus dur =
     (if str_in ''present'' (lower dur) then 3
      else if any_in [''2023'', ''2024'', ''2025''] dur then 2
      else if any_in [''2020'', ''2021'', ''2022''] dur then 1
      else 0)"

definition experience_role_bonus :: "string \<Rightarrow> string \<Rightarrow> int" where
  "experience_role_bonus role_type description_lower =
     (if role_type = ''mobile'' \<and> any_in [''react native'', ''ios'', ''android'', ''mobile''] description_lower
      then 3
      else if role_type = ''ai-ml'' \<and>
              any_in [''ai'', ''ml'', ''machine learning'', ''nlp'', ''tensorflow''] description_lower
      then 3
      else if role_type = ''backend'' \<and>
              any_in [''node.js'', ''python'', ''api'', ''database'', ''server''] description_lower
      then 3
      else if role_type = ''frontend'' \<and>
              any_in [''react'', ''vue'', ''angular'', ''frontend'', ''ui''] description_lower
      then 3
      else 0)"

text \<open>The body of the loop of \<^verbatim>\<open>select_relevant_experiences\<close>: the score of one record.\<close>

definition score_experience :: "jd_analysis \<Rightarrow> experience \<Rightarrow> int" where
  "score_experience jd e =
     (let role_type = get_or (jd_role_type jd) [];
          techs = map lower (get_or (jd_key_technologies jd) []);
          skills = map lower (get_or (jd_primary_skills jd) []);
          description_lower = lower (get_or (exp_description e) []);
          score = add_matches 2 techs description_lower 0;
          score = add_matches 1 skills description_lower score;
          score = score + recency_bonus (get_or (exp_duration e) [])
      in score + experience_role_bonus role_type description_lower)"

text \<open>
  \<^verbatim>\<open>scored.sort(key=lambda x: x[1], reverse=True)\<close>. Python's sort is stable, also
  with \<^verbatim>\<open>reverse=True\<close>: the result is the one list that is ordered by descending
  score and keeps records of equal score in their order. The insertion sort
  \<^const>\<open>sort_key\<close> on the negated score computes that list.
\<close>

definition sort_by_score_reverse :: "('a \<times> int) list \<Rightarrow> ('a \<times> int) list" where
  "sort_by_score_reverse scored = sort_key (\<lambda>x. - snd x) scored"

definition select_relevant_experiences ::
  "experience list \<Rightarrow> jd_analysis \<Rightarrow> int \<Rightarrow> experience list" where
  "select_relevant_experiences all_experiences jd max_experiences =
     (let scored_experiences = map (\<lambda>e. (e, score_experience jd e)) all_experiences;
          scored_experiences = sort_by_score_reverse scored_experiences
      in map fst (slice_to max_experiences scored_experiences))"

definition project_industry_bonus :: "string \<Rightarrow> string \<Rightarrow> int" where
  "project_industry_bonus industry_context description_lower =
     (if industry_context = ''healthcare'' \<and> any_in [''health'', ''medical'', ''hipaa'', ''patient''] description_lower
      then 3
      else if industry_context = ''fintech'' \<and>
              any_in [''payment'', ''financial'', ''stripe'', ''blockchain''] description_lower
      then 3
      else if industry_context = ''ecommerce'' \<and>
              any_in [''ecommerce'', ''shopping'', ''marketplace'', ''retail''] description_lower
      then 3
      else 0)"

definition project_role_bonus :: "string \<Rightarrow> string \<Rightarrow> int" where
  "project_role_bonus role_type description_lower =
     (if role_type = ''mobile'' \<and>
         any_in [''react native'', ''ios'', ''android'', ''mobile app''] description_lower
      then 4
      else if role_type = ''ai-ml'' \<and>
              any_in [''ai'', ''ml'', ''machine learning'', ''nlp'', ''openai'', ''llm''] description_lower
      then 4
      else if role_type = ''blockchain'' \<and>
              any_in [''blockchain'', ''web3'', ''ethereum'', ''smart contract''] description_lower
      then 4
      else if role_type = ''backend'' \<and>
              any_in [''api'', ''database'', ''server'', ''microservices''] description_lower
      then 3
      else if role_type = ''frontend'' \<and>
              any_in [''react'', ''vue'', ''angular'', ''frontend'', ''ui/ux''] description_lower
      then 3
      else 0)"

text \<open>The body of the loop of \<^verbatim>\<open>select_relevant_projects\<close>. The lowered name is
  computed and not used.\<close>

definition score_project :: "jd_analysis \<Rightarrow> project \<Rightarrow> int" where
  "score_project jd proj =
     (let role_type = get_or (jd_role_type jd) [];
          techs = map lower (get_or (jd_key_technologies jd) []);
          skills = map lower (get_or (jd_primary_skills jd) []);
          industry_context = get_or (jd_industry_context jd) [];
          description_lower = lower (get_or (proj_description proj) []);
          name_lower = lower (get_or (proj_name proj) []);
          score = add_matches 2 techs description_lower 0;
          score = add_matches 1 skills description_lower score;
          score = score + project_industry_bonus industry_context description_lower
      in score + project_role_bonus role_type description_lower)"

definition select_relevant_projects :: "project list \<Rightarrow> jd_analysis \<Rightarrow> int \<Rightarrow> project list" where
  "select_relevant_projects all_projects jd max_projects =
     (let scored_projects = map (\<lambda>proj. (proj, score_project jd proj)) all_projects;
          scored_projects = sort_by_score_reverse scored_projects
      in map fst (slice_to max_projects scored_projects))"

subsection \<open>Scores with \<^verbatim>\<open>str.lower\<close> as a parameter\<close>

text \<open>
  The scores above lower-case with \<^const>\<open>lower\<close>. \<^verbatim>\<open>str.lower\<close> is a library function,
  and outside ASCII it is not a map of single characters: a capital sigma becomes a
  final sigma at the end of a word and a medial sigma elsewhere. The scores are given
  here a second time, with the lower-casing function as a parameter \<open>lw\<close>; they are the
  scores above when \<open>lw\<close> is \<^const>\<open>lower\<close>.
\<close>

definition recency_bonus_with :: "(string \<Rightarrow> string) \<Rightarrow> string \<Rightarrow> int" where
  "recency_bonus_with lw dur =
     (if str_in ''present'' (lw dur) then 3
      else if any_in [''2023'', ''2024'', ''2025''] dur then 2
      else if any_in [''2020'', ''2021'', ''2022''] dur then 1
      else 0)"

definition score_experience_with :: "(string \<Rightarrow> string) \<Rightarrow> jd_analysis \<Rightarrow> experience \<Rightarrow> int" where
  "score_experience_with lw jd e =
     (let role_type = get_or (jd_role_type jd) [];
          techs = map lw (get_or (jd_key_technologies jd) []);
          skills = map lw (get_or (jd_primary_skills jd) []);
          description_lower = lw (get_or (exp_description e) []);
          score = add_matches 2 techs description_lower 0;
          score = add_matches 1 skills description_lower score;
          score = score + recency_bonus_with lw (get_or (exp_duration e) [])
      in score + experience_role_bonus role_type description_lower)"

definition score_project_with :: "(string \<Rightarrow> string) \<Rightarrow> jd_analysis \<Rightarrow> project \<Rightarrow> int" where
  "score_project_with lw jd proj =
     (let role_type = get_or (jd_role_type jd) [];
          techs = map lw (get_or (jd_key_technologies jd) []);
          skills = map lw (get_or (jd_primary_skills jd) []);
          industry_context = get_or (jd_industry_context jd) [];
          description_lower = lw (get_or (proj_description proj) []);
          name_lower = lw (get_or (proj_name proj) []);
          score = add_matches 2 techs description_lower 0;
          score = add_matches 1 skills description_lower score;
          score = score + project_industry_bonus industry_context description_lower
      in score + project_role_bonus role_type description_lower)"

section \<open>Random metrics\<close>

text \<open>
  \<^verbatim>\<open>random.choice(seq)\<close> returns \<^verbatim>\<open>seq[i]\<close> for a random index \<^verbatim>\<open>i\<close> below the
  length. The generator is threaded through the model as the stream of its future
  raw draws: a choice reads the next draw, reduced below the length, and moves on. All
  lists chosen from are literal and not empty.
\<close>

type_synonym rng = "nat \<Rightarrow> nat"

definition random_choice :: "'a list \<Rightarrow> rng \<Rightarrow> 'a \<times> rng" where
  "random_choice seq g = (seq ! (g 0 mod length seq), \<lambda>i. g (Suc i))"

record metrics =
  performance :: int
  uptime :: string
  reduction :: int

definition performance_improvements :: "int list" where
  "performance_improvements = [25, 30, 35, 40, 45, 50, 60, 65, 70]"

definition uptime_metrics :: "string list" where
  "uptime_metrics = [''99.9%'',
                        ''99.95%'',
                        ''99.8%'',
                        ''high availability'',
                        ''enterprise-grade reliability'']"

definition reduction_metrics :: "int list" where
  "reduction_metrics = [15, 20, 25, 30, 35, 40, 45, 50, 55, 60]"

definition get_varied_metrics :: "rng \<Rightarrow> metrics \<times> rng" where
  "get_varied_metrics g =
     (let (p, g) = random_choice performance_improvements g;
          (u, g) = random_choice uptime_metrics g;
          (r, g) = random_choice reduction_metrics g
      in (\<lparr>performance = p, uptime = u, reduction = r\<rparr>, g))"

section \<open>Fallback content\<close>

text \<open>The lists that \<^verbatim>\<open>get_fallback_bullets\<close> returns, for the metrics it has drawn.\<close>

definition fallback_bullets_for :: "metrics \<Rightarrow> string \<Rightarrow> string list" where
  "fallback_bullets_for metrics company =
     (if str_in ''hellogov'' (lower company) then
        [''Led full-stack development for AI-powered government services '' @
           ''platform, achieving '' @
           str_int (performance metrics) @
           ''% improvement in document processing efficiency'',
         ''Built comprehensive passport application portal with machine learning '' @
           ''validation, reducing processing errors and improving user experience'',
         ''Implemented SEO-optimized marketing website generating significant '' @
           ''revenue through strategic optimization and conversion tracking'',
         ''Developed scalable architecture supporting government API '' @
           ''integrations with '' @
           uptime metrics @
           '' reliability'']
      else if str_in ''facebook'' (lower company) then
        [''Developed Oculus VR ecosystem serving 2.8B+ users, implementing '' @
           ''real-time streaming with '' @
           str_int (performance metrics) @
           ''% performance improvement'',
         ''Built scalable News Feed backend services optimizing content delivery '' @
           ''for billions of daily active users'',
         ''Architected GraphQL live query systems reducing content loading '' @
           ''latency by '' @
           str_int (reduction metrics) @
           ''%'',
         ''Led cross-platform development initiatives with focus on performance '' @
           ''and reliability'']
      else if str_in ''microsoft'' (lower company) then
        [''Developed enterprise communication applications for 300M+ Skype users '' @
           ''with '' @
           uptime metrics @
           '' availability'',
         ''Led Android Remote Desktop Client development reducing connection '' @
           ''failures by '' @
           str_int (reduction metrics) @
           ''%'',
         ''Implemented comprehensive telemetry systems improving application '' @
           ''stability and user satisfaction'',
         ''Built cross-platform solutions with focus on enterprise security and '' @
           ''scalability'']
      else
        [''Developed scalable applications at '' @
           company @
           '' using modern frameworks and architectural patterns'',
         ''Implemented performance optimizations improving system efficiency by '' @
           str_int (performance metrics) @
           ''% and enhancing user experience'',
         ''Led technical initiatives and collaborated with cross-functional '' @
           ''teams for successful project delivery'',
         ''Delivered high-quality solutions with measurable business impact and '' @
           uptime metrics @
           '' reliability''])"

definition get_fallback_bullets :: "string \<Rightarrow> rng \<Rightarrow> string list \<times> rng" where
  "get_fallback_bullets company g =
     (let (metrics, g) = get_varied_metrics g in (fallback_bullets_for metrics company, g))"

definition fallback_project_bullets_for :: "metrics \<Rightarrow> string \<Rightarrow> string list" where
  "fallback_project_bullets_for metrics project_name =
     [''Engineered '' @
        project_name @
        '' with modern technologies and scalable architecture for optimal '' @
        ''performance'',
      ''Delivered high-impact solution improving system efficiency by '' @
        str_int (performance metrics) @
        ''% with measurable business results'']"

definition get_fallback_project_bullets :: "string \<Rightarrow> rng \<Rightarrow> string list \<times> rng" where
  "get_fallback_project_bullets project_name g =
     (let (metrics, g) = get_varied_metrics g in (fallback_project_bullets_for metrics project_name, g))"

text \<open>\<^verbatim>\<open>d.get(key, default)\<close> on a literal dictionary, written as its list of items.\<close>

definition dict_get :: "(string \<times> 'a) list \<Rightarrow> string \<Rightarrow> 'a \<Rightarrow> 'a" where
  "dict_get d key dflt = (case map_of d key of None \<Rightarrow> dflt | Some v \<Rightarrow> v)"

definition tech_stacks :: "(string \<times> string) list" where
  "tech_stacks =
     [(''mobile'', ''React Native | TypeScript | Node.js''),
      (''ai-ml'', ''Python | TensorFlow | Machine Learning''),
      (''frontend'', ''React.js | TypeScript | CSS3''),
      (''backend'', ''Node.js | PostgreSQL | REST APIs''),
      (''fullstack'', ''React | Node.js | PostgreSQL''),
      (''blockchain'', ''Solidity | Web3.js | Ethereum''),
      (''devops'', ''AWS | Docker | Kubernetes''),
      (''data-engineer'', ''Python | Apache Spark | SQL'')]"

definition get_fallback_tech_stack :: "string \<Rightarrow> string" where
  "get_fallback_tech_stack role_type = dict_get tech_stacks role_type ''Full-Stack Development''"

definition summaries :: "(string \<times> string) list" where
  "summaries =
     [(''mobile'',
        ''Senior Mobile Engineer with 10+ years at Microsoft and Facebook, '' @
          ''specializing in React Native and cross-platform mobile development, '' @
          ''with experience delivering healthcare solutions through projects like '' @
          ''BicycleHealth telemedicine platform.''),
      (''ai-ml'',
        ''Senior AI/ML Engineer with 10+ years at Microsoft and Facebook, '' @
          ''expert in machine learning, NLP, and AI systems, with healthcare '' @
          ''domain experience through telemedicine and consent management '' @
          ''platforms.''),
      (''frontend'',
        ''Senior Frontend Engineer with 10+ years at Microsoft and Facebook, '' @
          ''specializing in React.js and modern web technologies, with proven '' @
          ''experience building HIPAA-compliant healthcare applications.''),
      (''backend'',
        ''Senior Backend Engineer with 10+ years at Microsoft and Facebook, '' @
          ''expert in scalable systems, APIs, and microservices architecture, '' @
          ''with healthcare platform experience including telemedicine solutions.''),
      (''fullstack'',
        ''Senior Full-Stack Engineer with 10+ years at Microsoft and Facebook, '' @
          ''expert in modern web technologies and scalable systems, with hands-on '' @
          ''experience developing healthcare platforms including BicycleHealth '' @
          ''and Midato Health.''),
      (''blockchain'',
        ''Senior Blockchain Engineer with 10+ years at Microsoft and Facebook, '' @
          ''specializing in Web3 technologies, smart contracts, and decentralized '' @
          ''applications.''),
      (''devops'',
        ''Senior DevOps Engineer with 10+ years at Microsoft and Facebook, '' @
          ''expert in cloud infrastructure, automation, and scalable deployment '' @
          ''pipelines.'')]"

text \<open>In the first branch the default of \<^verbatim>\<open>get\<close> is \<^verbatim>\<open>summaries['fullstack']\<close>, a key
  of the dictionary.\<close>

definition get_fallback_summary :: "string \<Rightarrow> string" where
  "get_fallback_summary role_type =
     (if str_in ''healthcare'' (lower role_type)
      then dict_get summaries ''fullstack'' (dict_get summaries ''fullstack'' [])
      else dict_get summaries role_type
             (''Senior '' @
              role_type @
              '' with 10+ years at Microsoft and Facebook, expert in scalable systems '' @
              ''and modern technologies, with experience in healthcare applications '' @
              ''through BicycleHealth and Midato Health projects.''))"

definition skills_by_role :: "(string \<times> json) list" where
  "skills_by_role =
     [(''mobile'',
       JDict
         [(''languages'', str_list [''JavaScript'', ''TypeScript'', ''Swift'', ''Kotlin'']),
          (''frameworks'', str_list [''React Native'', ''React.js'', ''Node.js'', ''Express.js'']),
          (''tools'', str_list [''Xcode'', ''Android Studio'', ''Firebase'', ''GraphQL'']),
          (''cloud'', str_list [''AWS'', ''Google Cloud'', ''Azure'', ''Heroku'']),
          (''other'', str_list [''iOS Development'', ''Android Development'', ''Mobile UI/UX'', ''App Store Optimization''])]),
      (''ai-ml'',
       JDict
         [(''languages'', str_list [''Python'', ''JavaScript'', ''R'', ''SQL'']),
          (''frameworks'', str_list [''TensorFlow'', ''PyTorch'', ''Scikit-learn'', ''OpenAI'']),
          (''tools'', str_list [''Jupyter'', ''Docker'', ''Git'', ''MLflow'']),
          (''cloud'', str_list [''AWS'', ''Google Cloud'', ''Azure'', ''Databricks'']),
          (''other'', str_list [''Machine Learning'', ''NLP'', ''Deep Learning'', ''Data Science''])]),
      (''frontend'',
       JDict
         [(''languages'', str_list [''JavaScript'', ''TypeScript'', ''HTML5'', ''CSS3'']),
          (''frameworks'', str_list [''React.js'', ''Vue.js'', ''Next.js'', ''Angular'']),
          (''tools'', str_list [''Webpack'', ''Vite'', ''ESLint'', ''Jest'']),
          (''cloud'', str_list [''AWS'', ''Vercel'', ''Netlify'', ''CloudFlare'']),
          (''other'', str_list [''Responsive Design'', ''UI/UX'', ''Accessibility'', ''Performance Optimization''])]),
      (''backend'',
       JDict
         [(''languages'', str_list [''JavaScript'', ''Python'', ''Java'', ''Go'']),
          (''frameworks'', str_list [''Node.js'', ''Express.js'', ''Django'', ''Spring'']),
          (''tools'', str_list [''PostgreSQL'', ''MongoDB'', ''Redis'', ''GraphQL'']),
          (''cloud'', str_list [''AWS'', ''Docker'', ''Kubernetes'', ''Azure'']),
          (''other'', str_list [''API Design'', ''Microservices'', ''Database Design'', ''System Architecture''])])]"

definition get_fallback_skills :: "string \<Rightarrow> json" where
  "get_fallback_skills role_type =
     dict_get skills_by_role role_type
       (JDict
         [(''languages'', str_list [''JavaScript'', ''TypeScript'', ''Python'', ''Java'']),
          (''frameworks'', str_list [''React.js'', ''Node.js'', ''Express.js'', ''Next.js'']),
          (''tools'', str_list [''Git'', ''Docker'', ''PostgreSQL'', ''GraphQL'']),
          (''cloud'', str_list [''AWS'', ''Azure'', ''Google Cloud'', ''Heroku'']),
          (''other'', str_list [''Agile'', ''REST APIs'', ''CI/CD'', ''Testing''])])"

section \<open>Content generators\<close>

text \<open>
  The text-completion service is outside the program. The global \<^verbatim>\<open>client\<close> is
  \<open>None\<close> when it is not configured; otherwise it carries what the one request of the
  generator at hand comes to: \<open>Inr\<close> the text \<^verbatim>\<open>response.content[0].text\<close>, or
  \<open>Inl\<close> the exception that the call or the access to its reply raises. The prompts
  are not modelled, only the subscripts in them, which can raise. The parameter
  \<^verbatim>\<open>job_description\<close> is not used by any generator and is left out.
\<close>

type_synonym client = "(py_error + string) option"

subsection \<open>Experience bullets\<close>

definition healthcare_companies :: "string list" where
  "healthcare_companies = [''bicyclehealth'', ''midato health'', ''midato healt'']"

text \<open>The keywords looked for in the description of the record.\<close>

definition healthcare_description_keywords :: "string list" where
  "healthcare_description_keywords = [''health'', ''medical'', ''patient'', ''hipaa'', ''telemedicine'']"

text \<open>The keywords looked for in the bullets.\<close>

definition healthcare_keywords :: "string list" where
  "healthcare_keywords = [''healthcare'', ''patient'', ''medical'', ''hipaa'', ''clinical'', ''health'']"

text \<open>
  What \<^verbatim>\<open>for bullet in result\<close> walks through: the elements of a list, the keys of a
  dictionary, the characters of a string; any other object is not iterable.
\<close>

fun py_iter :: "json \<Rightarrow> py_error + json list" where
  "py_iter (JList xs) = Inr xs"
| "py_iter (JDict kvs) = Inr (map (\<lambda>kv. JStr (fst kv)) kvs)"
| "py_iter (JStr s) = Inr (map (\<lambda>c. JStr [c]) s)"
| "py_iter _ = Inl TypeError"

text \<open>
  The loop over the bullets: a bullet with no healthcare keyword is appended, another
  one is dropped, and \<^verbatim>\<open>bullet.lower()\<close> raises on a bullet that is not a string.
\<close>

fun filter_bullets :: "json list \<Rightarrow> string list \<Rightarrow> py_error + string list" where
  "filter_bullets [] filtered_bullets = Inr filtered_bullets"
| "filter_bullets (JStr bullet # rest) filtered_bullets =
     (if \<not> any_in healthcare_keywords (lower bullet)
      then filter_bullets rest (filtered_bullets @ [bullet])
      else filter_bullets rest filtered_bullets)"
| "filter_bullets (_ # rest) filtered_bullets = Inl AttributeError"

text \<open>\<^verbatim>\<open>while len(filtered_bullets) < 3: filtered_bullets.append(...)\<close>\<close>

function pad_bullets :: "string \<Rightarrow> string list \<Rightarrow> string list" where
  "pad_bullets generic filtered_bullets =
     (if length filtered_bullets < 3 then pad_bullets generic (filtered_bullets @ [generic])
      else filtered_bullets)"
  by pat_completeness auto
termination
  by (relation "measure (\<lambda>(generic, filtered_bullets). 3 - length filtered_bullets)") auto

declare pad_bullets.simps [simp del]

definition generic_bullet :: "string \<Rightarrow> string" where
  "generic_bullet company =
     ''Delivered high-performance solutions at '' @ company @ '' with measurable business impact''"

text \<open>
  The body of the \<^verbatim>\<open>try\<close> of \<^verbatim>\<open>generate_experience_bullets_claude\<close>; \<open>Inl\<close> is an
  exception raised inside it. The fallback passed to the normaliser is computed before
  the call, so its metrics are drawn whenever the service has replied.
\<close>

definition experience_bullets_try ::
  "(string \<Rightarrow> py_error + json) \<Rightarrow> py_error + string \<Rightarrow> string \<Rightarrow> bool \<Rightarrow> bool \<Rightarrow> rng
     \<Rightarrow> (py_error + json) \<times> rng" where
  "experience_bullets_try loads reply company is_healthcare_experience
       has_healthcare_in_description g =
     (case reply of
        Inl err \<Rightarrow> (Inl err, g)
      | Inr text \<Rightarrow>
          let response_text = py_strip text;
              (fallback, g) = get_fallback_bullets company g
          in
            (case safe_json_parse loads (Some response_text) (str_list fallback) of
               Inl err \<Rightarrow> (Inl err, g)
             | Inr result \<Rightarrow>
                 if \<not> is_healthcare_experience \<and> \<not> has_healthcare_in_description then
                   (case py_iter result of
                      Inl err \<Rightarrow> (Inl err, g)
                    | Inr bullets \<Rightarrow>
                        (case filter_bullets bullets [] of
                           Inl err \<Rightarrow> (Inl err, g)
                         | Inr filtered_bullets \<Rightarrow>
                             (Inr (str_list
                                (slice_to 4 (pad_bullets (generic_bullet company) filtered_bullets))),
                              g)))
                 else (Inr result, g)))"

definition generate_experience_bullets_claude ::
  "(string \<Rightarrow> py_error + json) \<Rightarrow> client \<Rightarrow> jd_analysis \<Rightarrow> experience \<Rightarrow> rng
     \<Rightarrow> (py_error + json) \<times> rng" where
  "generate_experience_bullets_claude loads client jd experience g =
     (case client of
        None \<Rightarrow>
          (case subscript (exp_company experience) ''company'' of
             Inl err \<Rightarrow> (Inl err, g)
           | Inr company \<Rightarrow>
               let (bullets, g) = get_fallback_bullets company g in (Inr (str_list bullets), g))
      | Some reply \<Rightarrow>
          let (metrics, g) = get_varied_metrics g in
          (case subscript (exp_company experience) ''company'' of
             Inl err \<Rightarrow> (Inl err, g)
           | Inr company \<Rightarrow>
          (case subscript (exp_description experience) ''description'' of
             Inl err \<Rightarrow> (Inl err, g)
           | Inr description \<Rightarrow>
          (case subscript (exp_role experience) ''role'' of
             Inl err \<Rightarrow> (Inl err, g)
           | Inr role \<Rightarrow>
               let is_healthcare_experience = any_in healthcare_companies (lower company);
                   has_healthcare_in_description =
                     any_in healthcare_description_keywords (lower description)
               in
                 (case experience_bullets_try loads reply company is_healthcare_experience
                         has_healthcare_in_description g of
                    (Inl err, g) \<Rightarrow>
                      let (bullets, g) = get_fallback_bullets company g
                      in (Inr (str_list bullets), g)
                  | (Inr result, g) \<Rightarrow> (Inr result, g))))))"

subsection \<open>Project bullets\<close>

text \<open>The body of the \<^verbatim>\<open>try\<close> of \<^verbatim>\<open>generate_project_bullets_claude\<close>.\<close>

definition project_bullets_try ::
  "(string \<Rightarrow> py_error + json) \<Rightarrow> py_error + string \<Rightarrow> string \<Rightarrow> rng
     \<Rightarrow> (py_error + json) \<times> rng" where
  "project_bullets_try loads reply project_name g =
     (case reply of
        Inl err \<Rightarrow> (Inl err, g)
      | Inr text \<Rightarrow>
          let response_text = py_strip text;
              (fallback, g) = get_fallback_project_bullets project_name g
          in
            (case safe_json_parse loads (Some response_text) (str_list fallback) of
               Inl err \<Rightarrow> (Inl err, g)
             | Inr result \<Rightarrow>
                 (case result of
                    JList xs \<Rightarrow>
                      if 2 \<le> length xs then (Inr (JList (slice_to 2 xs)), g)
                      else
                        let (bullets, g) = get_fallback_project_bullets project_name g
                        in (Inr (str_list bullets), g)
                  | _ \<Rightarrow>
                      let (bullets, g) = get_fallback_project_bullets project_name g
                      in (Inr (str_list bullets), g))))"

definition generate_project_bullets_claude ::
  "(string \<Rightarrow> py_error + json) \<Rightarrow> client \<Rightarrow> jd_analysis \<Rightarrow> project \<Rightarrow> rng
     \<Rightarrow> (py_error + json) \<times> rng" where
  "generate_project_bullets_claude loads client jd project g =
     (case client of
        None \<Rightarrow>
          (case subscript (proj_name project) ''name'' of
             Inl err \<Rightarrow> (Inl err, g)
           | Inr project_name \<Rightarrow>
               let (bullets, g) = get_fallback_project_bullets project_name g
               in (Inr (str_list bullets), g))
      | Some reply \<Rightarrow>
          let (metrics, g) = get_varied_metrics g in
          (case subscript (proj_name project) ''name'' of
             Inl err \<Rightarrow> (Inl err, g)
           | Inr project_name \<Rightarrow>
          (case subscript (proj_description project) ''description'' of
             Inl err \<Rightarrow> (Inl err, g)
           | Inr description \<Rightarrow>
               (case project_bullets_try loads reply project_name g of
                  (Inl err, g) \<Rightarrow>
                    let (bullets, g) = get_fallback_project_bullets project_name g
                    in (Inr (str_list bullets), g)
                | (Inr result, g) \<Rightarrow> (Inr result, g)))))"

subsection \<open>Tech stack, summary and skills\<close>

definition extract_tech_stack_claude :: "client \<Rightarrow> string \<Rightarrow> string \<Rightarrow> jd_analysis \<Rightarrow> string" where
  "extract_tech_stack_claude client description project_name jd =
     (case client of
        None \<Rightarrow> get_fallback_tech_stack (get_or (jd_role_type jd) ''fullstack'')
      | Some reply \<Rightarrow>
          (case reply of
             Inl err \<Rightarrow> get_fallback_tech_stack (get_or (jd_role_type jd) ''fullstack'')
           | Inr text \<Rightarrow>
               let tech_stack = py_strip text in
               if str_in ''|'' tech_stack \<and> length tech_stack < 120 then tech_stack
               else get_fallback_tech_stack (get_or (jd_role_type jd) ''fullstack'')))"

definition generate_professional_summary_claude :: "client \<Rightarrow> jd_analysis \<Rightarrow> string" where
  "generate_professional_summary_claude client jd =
     (case client of
        None \<Rightarrow> get_fallback_summary (get_or (jd_role_type jd) ''Software Engineer'')
      | Some reply \<Rightarrow>
          let role_type = get_or (jd_role_type jd) ''Software Engineer'' in
          (case reply of
             Inl err \<Rightarrow> get_fallback_summary role_type
           | Inr text \<Rightarrow>
               let summary = py_strip text;
                   summary = py_strip_char (CHR 0x27) (py_strip_char (CHR 0x22) summary)
               in if summary \<noteq> [] \<and> 30 < length summary then summary
                  else get_fallback_summary role_type))"

definition generate_skills_section_claude ::
  "(string \<Rightarrow> py_error + json) \<Rightarrow> client \<Rightarrow> jd_analysis \<Rightarrow> experience list \<Rightarrow> project list
     \<Rightarrow> json" where
  "generate_skills_section_claude loads client jd all_experiences all_projects =
     (case client of
        None \<Rightarrow> get_fallback_skills (get_or (jd_role_type jd) ''fullstack'')
      | Some reply \<Rightarrow>
          (case reply of
             Inl err \<Rightarrow> get_fallback_skills (get_or (jd_role_type jd) ''fullstack'')
           | Inr text \<Rightarrow>
               (case safe_json_parse loads (Some (py_strip text))
                       (get_fallback_skills (get_or (jd_role_type jd) ''fullstack'')) of
                  Inl err \<Rightarrow> get_fallback_skills (get_or (jd_role_type jd) ''fullstack'')
                | Inr result \<Rightarrow>
                    (case result of
                       JDict kvs \<Rightarrow> result
                     | _ \<Rightarrow> get_fallback_skills (get_or (jd_role_type jd) ''fullstack'')))))"

section \<open>Sample data\<close>

definition rng_const :: "nat \<Rightarrow> rng" where
  "rng_const n = (\<lambda>i. n)"

definition profile_backend :: jd_analysis where
  "profile_backend =
     \<lparr>jd_role_type = Some ''backend'', jd_seniority_level = None,
      jd_primary_skills = Some [''Node.js''], jd_key_technologies = Some [''PostgreSQL''],
      jd_ats_keywords = None, jd_focus_areas = None, jd_industry_context = None\<rparr>"

definition exp_postgres :: experience where
  "exp_postgres =
     \<lparr>exp_company = Some ''Acme'', exp_role = Some ''Engineer'',
      exp_duration = Some ''2010 - 2012'', exp_job_type = None,
      exp_description = Some ''Tuned PostgreSQL queries''\<rparr>"

definition exp_node :: experience where
  "exp_node =
     \<lparr>exp_company = Some ''Initech'', exp_role = Some ''Engineer'',
      exp_duration = Some ''2010 - 2012'', exp_job_type = None,
      exp_description = Some ''Built a Node.js API''\<rparr>"

definition exp_reports :: experience where
  "exp_reports =
     \<lparr>exp_company = Some ''Globex'', exp_role = Some ''Analyst'',
      exp_duration = Some ''2010 - 2012'', exp_job_type = None,
      exp_description = Some ''Wrote weekly reports''\<rparr>"

definition exp_health_corp :: experience where
  "exp_health_corp =
     \<lparr>exp_company = Some ''Health Corp'', exp_role = Some ''Engineer'',
      exp_duration = Some ''2019'', exp_job_type = None,
      exp_description = Some ''Built billing services''\<rparr>"

definition exp_midato :: experience where
  "exp_midato =
     \<lparr>exp_company = Some ''Midato Health'', exp_role = Some ''Engineer'',
      exp_duration = Some ''2021'', exp_job_type = None,
      exp_description = Some ''Built a consent platform''\<rparr>"

text \<open>
  Greek text, as the bytes of its UTF-8 encoding: capital alpha and capital sigma
  (U+0391, U+03A3), small alpha and final sigma (U+03B1, U+03C2), small alpha and
  medial sigma (U+03B1, U+03C3).
\<close>

definition capital_alpha_sigma :: string where
  "capital_alpha_sigma = [CHR 0xCE, CHR 0x91, CHR 0xCE, CHR 0xA3]"

definition small_alpha_final_sigma :: string where
  "small_alpha_final_sigma = [CHR 0xCE, CHR 0xB1, CHR 0xCF, CHR 0x82]"

definition small_alpha_sigma :: string where
  "small_alpha_sigma = [CHR 0xCE, CHR 0xB1, CHR 0xCF, CHR 0x83]"

text \<open>
  A sample of \<^verbatim>\<open>str.lower\<close>, for concrete runs: its value on the three Greek texts
  used below, where the capital sigma ends a word in the first and the third and
  stands before a letter in the second, and \<^const>\<open>lower\<close> on every other text.
\<close>

definition str_lower_sample :: "string \<Rightarrow> string" where
  "str_lower_sample s =
     (if s = ''X '' @ capital_alpha_sigma then ''x '' @ small_alpha_final_sigma
      else if s = ''X '' @ capital_alpha_sigma @ ''X'' then ''x '' @ small_alpha_sigma @ ''x''
      else if s = capital_alpha_sigma then small_alpha_final_sigma
      else lower s)"

definition profile_greek :: jd_analysis where
  "profile_greek =
     \<lparr>jd_role_type = None, jd_seniority_level = None, jd_primary_skills = None,
      jd_key_technologies = Some [''X'', capital_alpha_sigma], jd_ats_keywords = None,
      jd_focus_areas = None, jd_industry_context = None\<rparr>"

definition exp_greek :: experience where
  "exp_greek =
     \<lparr>exp_company = Some ''Acme'', exp_role = Some ''Engineer'', exp_duration = None,
      exp_job_type = None, exp_description = Some (''X '' @ capital_alpha_sigma)\<rparr>"

definition proj_demo :: project where
  "proj_demo =
     \<lparr>proj_name = Some ''Demo'', proj_link = None,
      proj_description = Some ''A database API server''\<rparr>"

section \<open>The normaliser never raises\<close>

text \<open>
  Claim C6. For every \<^verbatim>\<open>json.loads\<close>, every text (also \<^verbatim>\<open>None\<close> and the empty
  string) and every fallback, \<^const>\<open>safe_json_parse\<close> returns a value and raises
  nothing. The value is the fallback itself or the object that \<^verbatim>\<open>json.loads\<close> made of
  the cleaned text, and then that object is truthy. A parsed object that is falsy (an
  empty dictionary or list, \<^verbatim>\<open>null\<close>, zero, the empty string), a decoding error, and
  a missing or empty text all give the fallback unchanged.
\<close>

theorem safe_json_parse_total:
  "(\<exists>v. safe_json_parse loads text fallback_data = Inr v \<and>
        (v = fallback_data \<or>
         (\<exists>t. text = Some t \<and> loads (clean_json_response t) = Inr v \<and> truthy v)))
   \<and> (\<forall>t parsed. text = Some t \<and> loads (clean_json_response t) = Inr parsed \<and> \<not> truthy parsed
          \<longrightarrow> safe_json_parse loads text fallback_data = Inr fallback_data)
   \<and> (\<forall>t err. text = Some t \<and> loads (clean_json_response t) = Inl err
          \<longrightarrow> safe_json_parse loads text fallback_data = Inr fallback_data)
   \<and> (text = None \<or> text = Some [] \<longrightarrow> safe_json_parse loads text fallback_data = Inr fallback_data)"
  by (auto simp: safe_json_parse_def safe_json_parse_try_def Let_def
           split: option.splits sum.splits)

theorem safe_json_parse_total_witness:
  "json_loads_sample (clean_json_response ''{}'') = Inr (JDict []) \<and> \<not> truthy (JDict [])
   \<and> safe_json_parse json_loads_sample (Some ''{}'') (JInt 7) = Inr (JInt 7)"
proof -
  have h: "Some ''{}'' = Some ''{}'' \<and> json_loads_sample (clean_json_response ''{}'') = Inr (JDict [])
      \<and> \<not> truthy (JDict [])"
    by code_simp
  from safe_json_parse_total [of json_loads_sample "Some ''{}''" "JInt 7"]
  have "safe_json_parse json_loads_sample (Some ''{}'') (JInt 7) = Inr (JInt 7)"
    using h by blast
  with h show ?thesis
    by simp
qed

section \<open>The selectors\<close>

subsection \<open>Sorting by score and cutting\<close>

lemma slice_to_take: "\<exists>n. slice_to k xs = take n xs"
  by (auto simp: slice_to_def)

lemma filter_scored:
  "\<forall>p \<in> set ys. snd p = sc (fst p) \<Longrightarrow>
   map fst (filter (\<lambda>p. - snd p = - (s::int)) ys) = filter (\<lambda>e. sc e = s) (map fst ys)"
  by (induction ys) auto

lemma top_scored_stable:
  "prefix (filter (\<lambda>e. sc e = s) (map fst (slice_to k (sort_by_score_reverse (map (\<lambda>e. (e, sc e)) xs)))))
          (filter (\<lambda>e. sc e = s) xs)"
proof -
  let ?scored = "map (\<lambda>e. (e, sc e)) xs"
  let ?sorted = "sort_by_score_reverse ?scored"
  obtain n where n: "slice_to k ?sorted = take n ?sorted"
    using slice_to_take by blast
  have "prefix (take n ?sorted) ?sorted"
    by (rule take_is_prefix)
  then have "prefix (filter (\<lambda>p. - snd p = - s) (take n ?sorted)) (filter (\<lambda>p. - snd p = - s) ?sorted)"
    by (rule filter_mono_prefix)
  also have "filter (\<lambda>p. - snd p = - s) ?sorted = filter (\<lambda>p. - snd p = - s) ?scored"
    unfolding sort_by_score_reverse_def by (rule sort_key_stable)
  finally have "prefix (map fst (filter (\<lambda>p. - snd p = - s) (take n ?sorted)))
                       (map fst (filter (\<lambda>p. - snd p = - s) ?scored))"
    by (rule map_mono_prefix)
  moreover have "map fst (filter (\<lambda>p. - snd p = - s) ?scored) = filter (\<lambda>e. sc e = s) xs"
    by (induction xs) auto
  moreover have "set (take n ?sorted) \<subseteq> set ?scored"
    using set_take_subset [of n ?sorted] by (simp add: sort_by_score_reverse_def)
  then have "\<forall>p \<in> set (take n ?sorted). snd p = sc (fst p)"
    by auto
  then have "map fst (filter (\<lambda>p. - snd p = - s) (take n ?sorted))
           = filter (\<lambda>e. sc e = s) (map fst (take n ?sorted))"
    by (rule filter_scored)
  ultimately show ?thesis
    by (simp add: n)
qed

lemma top_scored_descending:
  "sorted_wrt (\<lambda>a b. sc b \<le> sc a)
     (map fst (slice_to k (sort_by_score_reverse (map (\<lambda>e. (e, sc e)) xs))))"
proof -
  let ?scored = "map (\<lambda>e. (e, sc e)) xs"
  let ?sorted = "sort_by_score_reverse ?scored"
  obtain n where n: "slice_to k ?sorted = take n ?sorted"
    using slice_to_take by blast
  have "sorted (map (\<lambda>x. - snd x) ?sorted)"
    unfolding sort_by_score_reverse_def by (rule sorted_sort_key)
  then have "sorted_wrt (\<lambda>p q. - snd p \<le> - snd q) ?sorted"
    by (simp add: sorted_map)
  then have srt: "sorted_wrt (\<lambda>p q. - snd p \<le> - snd q) (take n ?sorted)"
    by (rule sorted_wrt_take)
  have "set (take n ?sorted) \<subseteq> set ?scored"
    using set_take_subset [of n ?sorted] by (simp add: sort_by_score_reverse_def)
  then have el: "\<forall>p \<in> set (take n ?sorted). snd p = sc (fst p)"
    by auto
  have "sorted_wrt (\<lambda>p q. sc (fst q) \<le> sc (fst p)) (take n ?sorted)"
  proof (rule sorted_wrt_mono_rel)
    show "sorted_wrt (\<lambda>p q. - snd p \<le> - snd q) (take n ?sorted)"
      by (rule srt)
  next
    fix p q
    assume "p \<in> set (take n ?sorted)" and "q \<in> set (take n ?sorted)"
      and "- snd p \<le> - snd q"
    with el show "sc (fst q) \<le> sc (fst p)"
      by simp
  qed
  then show ?thesis
    by (simp add: n sorted_wrt_map)
qed

lemma top_scored_length:
  "0 \<le> k \<Longrightarrow> length (map fst (slice_to k (sort_by_score_reverse (map (\<lambda>e. (e, sc e)) xs))))
     = min (nat k) (length xs)"
  by (simp add: slice_to_def sort_by_score_reverse_def)

lemma map_fst_sorted_mset:
  "mset (map fst (sort_by_score_reverse (map (\<lambda>e. (e, sc e)) xs))) = mset xs"
proof -
  have "mset (sort_by_score_reverse (map (\<lambda>e. (e, sc e)) xs)) = mset (map (\<lambda>e. (e, sc e)) xs)"
    by (simp add: sort_by_score_reverse_def)
  then have "image_mset fst (mset (sort_by_score_reverse (map (\<lambda>e. (e, sc e)) xs)))
           = image_mset fst (mset (map (\<lambda>e. (e, sc e)) xs))"
    by simp
  then show ?thesis
    by (simp add: image_mset.compositionality o_def)
qed

lemma top_scored_mset:
  "mset (map fst (slice_to k (sort_by_score_reverse (map (\<lambda>e. (e, sc e)) xs)))) \<subseteq># mset xs"
proof -
  let ?sorted = "sort_by_score_reverse (map (\<lambda>e. (e, sc e)) xs)"
  obtain n where n: "slice_to k ?sorted = take n ?sorted"
    using slice_to_take by blast
  have "mset (map fst (take n ?sorted)) \<subseteq># mset (map fst (take n ?sorted)) + mset (map fst (drop n ?sorted))"
    by simp
  also have "\<dots> = mset (map fst ?sorted)"
    by (metis append_take_drop_id map_append mset_append)
  finally have "mset (map fst (take n ?sorted)) \<subseteq># mset (map fst ?sorted)" .
  then show ?thesis
    unfolding n map_fst_sorted_mset .
qed

lemma top_scored_all:
  "int (length xs) \<le> k \<Longrightarrow>
   mset (map fst (slice_to k (sort_by_score_reverse (map (\<lambda>e. (e, sc e)) xs)))) = mset xs"
proof -
  assume a: "int (length xs) \<le> k"
  then have "slice_to k (sort_by_score_reverse (map (\<lambda>e. (e, sc e)) xs))
     = sort_by_score_reverse (map (\<lambda>e. (e, sc e)) xs)"
    by (simp add: slice_to_def sort_by_score_reverse_def)
  then show ?thesis
    using map_fst_sorted_mset [of sc xs] by (simp only:)
qed

lemma top_scored_distinct:
  "distinct xs \<Longrightarrow> distinct (map fst (slice_to k (sort_by_score_reverse (map (\<lambda>e. (e, sc e)) xs))))"
proof -
  assume d: "distinct xs"
  let ?sorted = "sort_by_score_reverse (map (\<lambda>e. (e, sc e)) xs)"
  obtain n where n: "slice_to k ?sorted = take n ?sorted"
    using slice_to_take by blast
  have "distinct (map fst ?sorted)"
    using d map_fst_sorted_mset [of sc xs] by (metis mset_eq_imp_distinct_iff)
  then have "distinct (take n (map fst ?sorted))"
    by (rule distinct_take)
  then show ?thesis
    by (simp add: n take_map)
qed

text \<open>
  Claim C2. The selectors keep records of equal score in the order of the input: for
  every score \<open>s\<close>, the selected records of score \<open>s\<close>, in the order of the output, are
  the first ones of the input's records of score \<open>s\<close>, in the order of the input. The
  output is in descending order of score. This holds for both selectors, every profile
  and every bound.
\<close>

theorem selector_stable:
  "prefix (filter (\<lambda>e. score_experience jd e = s) (select_relevant_experiences all_experiences jd k))
          (filter (\<lambda>e. score_experience jd e = s) all_experiences)
   \<and> sorted_wrt (\<lambda>a b. score_experience jd b \<le> score_experience jd a)
        (select_relevant_experiences all_experiences jd k)
   \<and> prefix (filter (\<lambda>p. score_project jd p = s) (select_relevant_projects all_projects jd k))
            (filter (\<lambda>p. score_project jd p = s) all_projects)
   \<and> sorted_wrt (\<lambda>a b. score_project jd b \<le> score_project jd a)
        (select_relevant_projects all_projects jd k)"
  unfolding select_relevant_experiences_def select_relevant_projects_def Let_def
  by (intro conjI top_scored_stable top_scored_descending)

text \<open>
  Claim C7. For a bound \<open>k\<close> that is not negative (the callers pass 4 for experiences
  and 5 for projects) a selector returns \<open>min k (length records)\<close> records. As a
  multiset they are contained in the input, so no record is made up and none is
  returned more often than the input holds it: an input without duplicates gives an
  output without duplicates. When the input has at most \<open>k\<close> records, all of them are
  returned.
\<close>

theorem selector_cardinality:
  assumes "0 \<le> k"
  shows "length (select_relevant_experiences all_experiences jd k) = min (nat k) (length all_experiences)
       \<and> mset (select_relevant_experiences all_experiences jd k) \<subseteq># mset all_experiences
       \<and> (distinct all_experiences \<longrightarrow> distinct (select_relevant_experiences all_experiences jd k))
       \<and> (int (length all_experiences) \<le> k \<longrightarrow>
            mset (select_relevant_experiences all_experiences jd k) = mset all_experiences)
       \<and> length (select_relevant_projects all_projects jd k) = min (nat k) (length all_projects)
       \<and> mset (select_relevant_projects all_projects jd k) \<subseteq># mset all_projects
       \<and> (distinct all_projects \<longrightarrow> distinct (select_relevant_projects all_projects jd k))
       \<and> (int (length all_projects) \<le> k \<longrightarrow>
            mset (select_relevant_projects all_projects jd k) = mset all_projects)"
  unfolding select_relevant_experiences_def select_relevant_projects_def Let_def
  using assms
  by (intro conjI impI top_scored_length top_scored_mset top_scored_distinct top_scored_all)

theorem selector_cardinality_witness:
  "(0::int) \<le> 4 \<and> distinct [exp_postgres, exp_node] \<and> int (length [exp_postgres, exp_node]) \<le> 4
   \<and> length (select_relevant_experiences [exp_postgres, exp_node] profile_backend 4) = 2
   \<and> mset (select_relevant_experiences [exp_postgres, exp_node] profile_backend 4)
       = mset [exp_postgres, exp_node]
   \<and> distinct (select_relevant_experiences [exp_postgres, exp_node] profile_backend 4)"
proof -
  have k: "(0::int) \<le> 4"
    by simp
  have d: "distinct [exp_postgres, exp_node]"
    by (simp add: exp_postgres_def exp_node_def)
  have l: "int (length [exp_postgres, exp_node]) \<le> 4"
    by simp
  from selector_cardinality [OF k, of "[exp_postgres, exp_node]" profile_backend "[]"] d l
  show ?thesis
    by simp
qed

subsection \<open>Scores\<close>

lemma lower_append: "lower (a @ b) = lower a @ lower b"
  by (simp add: lower_def)

lemma str_in_append_right: "str_in t d \<Longrightarrow> str_in t (d @ x)"
  unfolding str_in_def sublist_def by (metis append.assoc)

lemma any_in_append_right: "any_in kws d \<Longrightarrow> any_in kws (d @ x)"
  by (auto simp: any_in_def list_ex_iff intro: str_in_append_right)

lemma add_matches_mono:
  assumes "\<And>t. str_in t d \<Longrightarrow> str_in t d'" and "0 \<le> p" and "s \<le> s'"
  shows "add_matches p toks d s \<le> add_matches p toks d' s'"
  using assms(3) unfolding add_matches_def
proof (induction toks arbitrary: s s')
  case Nil
  then show ?case by simp
next
  case (Cons t toks)
  show ?case
    using Cons.prems assms(1) [of t] assms(2) by (auto intro!: Cons.IH)
qed

lemma experience_role_bonus_mono:
  "(\<And>kws. any_in kws d \<Longrightarrow> any_in kws d') \<Longrightarrow> experience_role_bonus rt d \<le> experience_role_bonus rt d'"
  by (auto simp: experience_role_bonus_def)

lemma project_role_bonus_mono:
  "(\<And>kws. any_in kws d \<Longrightarrow> any_in kws d') \<Longrightarrow> project_role_bonus rt d \<le> project_role_bonus rt d'"
  by (auto simp: project_role_bonus_def)

lemma project_industry_bonus_mono:
  "(\<And>kws. any_in kws d \<Longrightarrow> any_in kws d') \<Longrightarrow> project_industry_bonus ic d \<le> project_industry_bonus ic d'"
  by (auto simp: project_industry_bonus_def)

lemma score_experience_with_lower: "score_experience_with lower jd e = score_experience jd e"
  by (simp add: score_experience_with_def score_experience_def recency_bonus_with_def
        recency_bonus_def)

lemma score_project_with_lower: "score_project_with lower jd p = score_project jd p"
  by (simp add: score_project_with_def score_project_def)

lemma str_in_prefix: "prefix d d' \<Longrightarrow> str_in t d \<Longrightarrow> str_in t d'"
  by (auto simp: prefix_def intro: str_in_append_right)

lemma any_in_prefix: "prefix d d' \<Longrightarrow> any_in kws d \<Longrightarrow> any_in kws d'"
  by (auto simp: prefix_def intro: any_in_append_right)

text \<open>
  Claim C8, as stated, fails. The description of \<^const>\<open>exp_greek\<close> is the letter X, a
  blank, a capital alpha and a capital sigma; the key technologies are X and capital
  alpha with capital sigma. Lower-cased, the description ends in a final sigma and
  contains both lower-cased technologies: the score is 4. With the key technology X
  appended, the sigma no longer ends a word and is lower-cased to a medial sigma: the
  second technology is no longer found and the score is 2.
\<close>

theorem final_sigma_score_drops:
  "''X'' \<in> set (get_or (jd_key_technologies profile_greek) [])
   \<and> score_experience_with str_lower_sample profile_greek exp_greek = 4
   \<and> score_experience_with str_lower_sample profile_greek
        (exp_greek\<lparr>exp_description := Some (get_or (exp_description exp_greek) [] @ ''X'')\<rparr>) = 2"
  by code_simp

text \<open>
  Claim C8, amended. Take a record, a profile and a token such that lower-casing the
  description with the token appended gives the lower-cased description followed by
  further text, as it does for ASCII text. Then appending the token to the description
  does not lower the score of the record, for experiences and for projects. The token
  may be any text, a key technology of the profile in particular; an absent description
  counts as the empty one.
\<close>

theorem score_monotone_where_lower_extends:
  assumes "prefix (lw (get_or (exp_description e) [])) (lw (get_or (exp_description e) [] @ token))"
    and "prefix (lw (get_or (proj_description p) [])) (lw (get_or (proj_description p) [] @ token))"
  shows "score_experience_with lw jd e
           \<le> score_experience_with lw jd
                (e\<lparr>exp_description := Some (get_or (exp_description e) [] @ token)\<rparr>)
       \<and> score_project_with lw jd p
           \<le> score_project_with lw jd
                (p\<lparr>proj_description := Some (get_or (proj_description p) [] @ token)\<rparr>)"
proof
  let ?d = "lw (get_or (exp_description e) [])"
  let ?d' = "lw (get_or (exp_description e) [] @ token)"
  have sub: "\<And>t. str_in t ?d \<Longrightarrow> str_in t ?d'"
    using assms(1) by (rule str_in_prefix)
  have any: "\<And>kws. any_in kws ?d \<Longrightarrow> any_in kws ?d'"
    using assms(1) by (rule any_in_prefix)
  have "add_matches 2 ts ?d 0 \<le> add_matches 2 ts ?d' 0" for ts
    by (rule add_matches_mono) (use sub in auto)
  then have "add_matches 1 ss ?d (add_matches 2 ts ?d 0)
           \<le> add_matches 1 ss ?d' (add_matches 2 ts ?d' 0)" for ss ts
    by (intro add_matches_mono) (use sub in auto)
  moreover have "experience_role_bonus rt ?d \<le> experience_role_bonus rt ?d'" for rt
    by (rule experience_role_bonus_mono) (rule any)
  ultimately show "score_experience_with lw jd e
     \<le> score_experience_with lw jd (e\<lparr>exp_description := Some (get_or (exp_description e) [] @ token)\<rparr>)"
    by (simp add: score_experience_with_def Let_def get_or_def add_mono)
next
  let ?d = "lw (get_or (proj_description p) [])"
  let ?d' = "lw (get_or (proj_description p) [] @ token)"
  have sub: "\<And>t. str_in t ?d \<Longrightarrow> str_in t ?d'"
    using assms(2) by (rule str_in_prefix)
  have any: "\<And>kws. any_in kws ?d \<Longrightarrow> any_in kws ?d'"
    using assms(2) by (rule any_in_prefix)
  have "add_matches 2 ts ?d 0 \<le> add_matches 2 ts ?d' 0" for ts
    by (rule add_matches_mono) (use sub in auto)
  then have "add_matches 1 ss ?d (add_matches 2 ts ?d 0)
           \<le> add_matches 1 ss ?d' (add_matches 2 ts ?d' 0)" for ss ts
    by (intro add_matches_mono) (use sub in auto)
  moreover have "project_role_bonus rt ?d \<le> project_role_bonus rt ?d'" for rt
    by (rule project_role_bonus_mono) (rule any)
  moreover have "project_industry_bonus ic ?d \<le> project_industry_bonus ic ?d'" for ic
    by (rule project_industry_bonus_mono) (rule any)
  ultimately show "score_project_with lw jd p
     \<le> score_project_with lw jd (p\<lparr>proj_description := Some (get_or (proj_description p) [] @ token)\<rparr>)"
    by (simp add: score_project_with_def Let_def get_or_def add_mono)
qed

theorem score_monotone_where_lower_extends_witness:
  "prefix (lower (get_or (exp_description exp_reports) []))
          (lower (get_or (exp_description exp_reports) [] @ ''PostgreSQL''))
   \<and> prefix (lower (get_or (proj_description proj_demo) []))
            (lower (get_or (proj_description proj_demo) [] @ ''PostgreSQL''))
   \<and> score_experience_with lower profile_backend exp_reports = 0
   \<and> score_experience_with lower profile_backend
        (exp_reports\<lparr>exp_description := Some (get_or (exp_description exp_reports) [] @ ''PostgreSQL'')\<rparr>) = 2
   \<and> score_experience_with lower profile_backend exp_reports
       \<le> score_experience_with lower profile_backend
            (exp_reports\<lparr>exp_description := Some (get_or (exp_description exp_reports) [] @ ''PostgreSQL'')\<rparr>)
   \<and> score_project_with lower profile_backend proj_demo
       \<le> score_project_with lower profile_backend
            (proj_demo\<lparr>proj_description := Some (get_or (proj_description proj_demo) [] @ ''PostgreSQL'')\<rparr>)"
proof -
  have 1: "prefix (lower (get_or (exp_description exp_reports) []))
          (lower (get_or (exp_description exp_reports) [] @ ''PostgreSQL''))"
    and 2: "prefix (lower (get_or (proj_description proj_demo) []))
            (lower (get_or (proj_description proj_demo) [] @ ''PostgreSQL''))"
    by (simp_all add: lower_append)
  have 3: "score_experience_with lower profile_backend exp_reports = 0"
    and 4: "score_experience_with lower profile_backend
        (exp_reports\<lparr>exp_description := Some (get_or (exp_description exp_reports) [] @ ''PostgreSQL'')\<rparr>) = 2"
    by code_simp+
  from score_monotone_where_lower_extends [OF 1 2, of profile_backend] 1 2 3 4 show ?thesis
    by blast
qed

text \<open>
  Claim C10. The score of a project does not depend on its name: setting the name to
  any value, or removing it, leaves the score as it is.
\<close>

theorem score_project_ignores_name:
  "score_project jd (p\<lparr>proj_name := n\<rparr>) = score_project jd p"
  by (simp add: score_project_def)

text \<open>
  Claim C9, as stated, fails. For the profile of scenario A (role type backend, primary
  skills Node.js, key technologies PostgreSQL) the record \<^const>\<open>exp_postgres\<close> is the only
  one of the pair whose description contains PostgreSQL. It scores 2. The record
  \<^const>\<open>exp_node\<close> scores 4, one point for the skill Node.js and three for the backend
  keywords, and is ranked first.
\<close>

theorem postgres_not_always_higher:
  "str_in ''PostgreSQL'' (get_or (exp_description exp_postgres) [])
   \<and> \<not> str_in ''PostgreSQL'' (get_or (exp_description exp_node) [])
   \<and> score_experience profile_backend exp_postgres < score_experience profile_backend exp_node
   \<and> select_relevant_experiences [exp_postgres, exp_node] profile_backend 4 = [exp_node, exp_postgres]"
  by code_simp

lemma lower_PostgreSQL: "lower ''PostgreSQL'' = ''postgresql''"
  by code_simp

lemma lower_Node_js: "lower ''Node.js'' = ''node.js''"
  by code_simp

lemma score_experience_backend:
  assumes "jd_role_type jd = Some ''backend''"
    and "jd_primary_skills jd = Some [''Node.js'']"
    and "jd_key_technologies jd = Some [''PostgreSQL'']"
  shows "score_experience jd e =
     (if str_in ''postgresql'' (lower (get_or (exp_description e) [])) then 2 else 0)
   + (if str_in ''node.js'' (lower (get_or (exp_description e) [])) then 1 else 0)
   + recency_bonus (get_or (exp_duration e) [])
   + experience_role_bonus ''backend'' (lower (get_or (exp_description e) []))"
  using assms
  by (simp add: score_experience_def Let_def get_or_def add_matches_def lower_PostgreSQL lower_Node_js)

text \<open>
  Claim C9, amended. For a profile with role type backend, primary skills Node.js and
  key technologies PostgreSQL, take two experience records of which exactly one has
  \<^verbatim>\<open>postgresql\<close> in its lowered description, and which earn the same points from the
  other rules (the Node.js match, the recency bonus, the backend keywords). Then the
  record with PostgreSQL scores exactly 2 more, and the selector puts it first,
  whatever the order of the input.
\<close>

theorem postgres_higher_on_equal_bonuses:
  assumes "jd_role_type jd = Some ''backend''"
    and "jd_primary_skills jd = Some [''Node.js'']"
    and "jd_key_technologies jd = Some [''PostgreSQL'']"
    and "str_in ''postgresql'' (lower (get_or (exp_description a) []))"
    and "\<not> str_in ''postgresql'' (lower (get_or (exp_description b) []))"
    and "str_in ''node.js'' (lower (get_or (exp_description a) []))
       = str_in ''node.js'' (lower (get_or (exp_description b) []))"
    and "recency_bonus (get_or (exp_duration a) []) = recency_bonus (get_or (exp_duration b) [])"
    and "experience_role_bonus ''backend'' (lower (get_or (exp_description a) []))
       = experience_role_bonus ''backend'' (lower (get_or (exp_description b) []))"
  shows "score_experience jd a = score_experience jd b + 2
       \<and> select_relevant_experiences [a, b] jd 4 = [a, b]
       \<and> select_relevant_experiences [b, a] jd 4 = [a, b]"
proof -
  have sc: "score_experience jd a = score_experience jd b + 2"
    using assms by (simp add: score_experience_backend)
  then show ?thesis
    by (simp add: select_relevant_experiences_def sort_by_score_reverse_def slice_to_def)
qed

theorem postgres_higher_on_equal_bonuses_witness:
  "score_experience profile_backend exp_postgres = score_experience profile_backend exp_reports + 2
   \<and> select_relevant_experiences [exp_postgres, exp_reports] profile_backend 4 = [exp_postgres, exp_reports]
   \<and> select_relevant_experiences [exp_reports, exp_postgres] profile_backend 4 = [exp_postgres, exp_reports]"
proof -
  have 1: "jd_role_type profile_backend = Some ''backend''"
    and 2: "jd_primary_skills profile_backend = Some [''Node.js'']"
    and 3: "jd_key_technologies profile_backend = Some [''PostgreSQL'']"
    by (simp_all add: profile_backend_def)
  have 4: "str_in ''postgresql'' (lower (get_or (exp_description exp_postgres) []))"
    by code_simp
  have 5: "\<not> str_in ''postgresql'' (lower (get_or (exp_description exp_reports) []))"
    by code_simp
  have 6: "str_in ''node.js'' (lower (get_or (exp_description exp_postgres) []))
       = str_in ''node.js'' (lower (get_or (exp_description exp_reports) []))"
    by code_simp
  have 7: "recency_bonus (get_or (exp_duration exp_postgres) [])
       = recency_bonus (get_or (exp_duration exp_reports) [])"
    by code_simp
  have 8: "experience_role_bonus ''backend'' (lower (get_or (exp_description exp_postgres) []))
       = experience_role_bonus ''backend'' (lower (get_or (exp_description exp_reports) []))"
    by code_simp
  show ?thesis
    by (rule postgres_higher_on_equal_bonuses [OF 1 2 3 4 5 6 7 8])
qed

section \<open>The generators\<close>

subsection \<open>Random metrics, filtering and padding\<close>

lemma random_choice_in: "seq \<noteq> [] \<Longrightarrow> fst (random_choice seq g) \<in> set seq"
  by (simp add: random_choice_def)

lemma get_varied_metrics_in:
  "performance (fst (get_varied_metrics g)) \<in> set performance_improvements \<and>
   uptime (fst (get_varied_metrics g)) \<in> set uptime_metrics \<and>
   reduction (fst (get_varied_metrics g)) \<in> set reduction_metrics"
proof -
  have "performance_improvements \<noteq> []" "uptime_metrics \<noteq> []" "reduction_metrics \<noteq> []"
    by (simp_all add: performance_improvements_def uptime_metrics_def reduction_metrics_def)
  then show ?thesis
    by (simp add: get_varied_metrics_def Let_def split_beta random_choice_in)
qed

lemma get_fallback_bullets_fst:
  "fst (get_fallback_bullets company g) = fallback_bullets_for (fst (get_varied_metrics g)) company"
  by (simp add: get_fallback_bullets_def split_beta)

lemma get_fallback_project_bullets_fst:
  "fst (get_fallback_project_bullets n g) = fallback_project_bullets_for (fst (get_varied_metrics g)) n"
  by (simp add: get_fallback_project_bullets_def split_beta)

lemma length_fallback_bullets_for: "length (fallback_bullets_for m company) = 4"
  by (simp add: fallback_bullets_for_def)

lemma length_fallback_project_bullets_for: "length (fallback_project_bullets_for m n) = 2"
  by (simp add: fallback_project_bullets_for_def)

lemma filter_bullets_set:
  "filter_bullets bullets acc = Inr fs \<Longrightarrow>
   set fs \<subseteq> set acc \<union> {b. JStr b \<in> set bullets \<and> \<not> any_in healthcare_keywords (lower b)}"
  by (induction bullets acc rule: filter_bullets.induct) (auto split: if_splits)

lemma pad_bullets_length: "length (pad_bullets generic fs) = max 3 (length fs)"
proof (induction generic fs rule: pad_bullets.induct)
  case (1 generic fs)
  then show ?case
    by (subst pad_bullets.simps) (simp add: max_def)
qed

lemma pad_bullets_set: "set (pad_bullets generic fs) \<subseteq> set fs \<union> {generic}"
proof (induction generic fs rule: pad_bullets.induct)
  case (1 generic fs)
  then show ?case
    by (subst pad_bullets.simps) auto
qed

lemma sliced_padded_length:
  "length (slice_to 4 (pad_bullets generic fs)) = 3 \<or> length (slice_to 4 (pad_bullets generic fs)) = 4"
proof -
  have "length (slice_to 4 (pad_bullets generic fs)) = min 4 (max 3 (length fs))"
    by (simp add: slice_to_def pad_bullets_length)
  then show ?thesis
    by arith
qed

lemma sliced_padded_set:
  "set (slice_to 4 (pad_bullets generic fs)) \<subseteq> set fs \<union> {generic}"
  using pad_bullets_set [of generic fs] set_take_subset [of 4 "pad_bullets generic fs"]
  by (auto simp: slice_to_def)

lemma safe_json_parse_returns: "\<exists>v. safe_json_parse loads t fallback_data = Inr v"
  by (cases "safe_json_parse_try loads t fallback_data") (simp_all add: safe_json_parse_def)

subsection \<open>No healthcare keyword in the fixed texts\<close>

text \<open>
  A keyword without a blank occurs in two texts joined by a blank only when it occurs in
  one of them. The fixed parts of the fallback bullets and of the generic bullet are
  checked by evaluation, for every metric that can be drawn.
\<close>

lemma sublist_split_at:
  assumes "c \<notin> set k"
  shows "sublist k (a @ c # b) \<longleftrightarrow> sublist k a \<or> sublist k b"
proof
  assume "sublist k (a @ c # b)"
  then consider "sublist k a" | "sublist k (c # b)"
    | k1 k2 where "k = k1 @ k2" "suffix k1 a" "prefix k2 (c # b)"
    unfolding sublist_append by blast
  then show "sublist k a \<or> sublist k b"
  proof cases
    case 1
    then show ?thesis by simp
  next
    case 2
    then have "prefix k (c # b) \<or> sublist k b"
      by (simp add: sublist_Cons_right)
    moreover have "k = []" if "prefix k (c # b)"
      using that assms by (cases k) auto
    ultimately show ?thesis
      by auto
  next
    case 3
    from 3(3) assms 3(1) have "k2 = []"
      by (cases k2) auto
    with 3 show ?thesis
      by auto
  qed
next
  assume "sublist k a \<or> sublist k b"
  then show "sublist k (a @ c # b)"
  proof
    assume "sublist k a"
    then show ?thesis
      unfolding sublist_def by (metis append.assoc)
  next
    assume "sublist k b"
    then obtain ps ss where "b = ps @ k @ ss"
      unfolding sublist_def by blast
    then have "a @ c # b = (a @ c # ps) @ k @ ss"
      by simp
    then show ?thesis
      unfolding sublist_def by blast
  qed
qed

lemma any_in_split_at:
  assumes "\<forall>k \<in> set kws. c \<notin> set k"
  shows "any_in kws (a @ c # b) \<longleftrightarrow> any_in kws a \<or> any_in kws b"
  using assms by (auto simp: any_in_def list_ex_iff str_in_def sublist_split_at)

lemma healthcare_keywords_no_blank: "\<forall>k \<in> set healthcare_keywords. CHR '' '' \<notin> set k"
  by (simp add: healthcare_keywords_def)

lemma clean_embed:
  assumes "\<not> any_in healthcare_keywords (lower x)"
    and "\<not> any_in healthcare_keywords (lower pre)"
    and "\<not> any_in healthcare_keywords (lower post)"
  shows "\<not> any_in healthcare_keywords (lower (pre @ '' '' @ x @ '' '' @ post))"
proof -
  have blank: "lower '' '' = '' ''"
    by code_simp
  have "lower (pre @ '' '' @ x @ '' '' @ post)
      = lower pre @ CHR '' '' # (lower x @ CHR '' '' # lower post)"
    using blank by (simp add: lower_def)
  then show ?thesis
    using assms by (simp add: any_in_split_at [OF healthcare_keywords_no_blank])
qed

lemma clean_hellogov_1:
  assumes "p \<in> set performance_improvements"
  shows "\<not> any_in healthcare_keywords
     (lower
        (''Led full-stack development for AI-powered government services '' @
         ''platform, achieving '' @
         str_int p @
         ''% improvement in document processing efficiency''))"
proof -
  have "list_all
     (\<lambda>p. \<not> any_in healthcare_keywords
        (lower
           (''Led full-stack development for AI-powered government services '' @
            ''platform, achieving '' @
            str_int p @
            ''% improvement in document processing efficiency'')))
     performance_improvements"
    by code_simp
  with assms show ?thesis
    unfolding list_all_iff by blast
qed

lemma clean_hellogov_2:
  "\<not> any_in healthcare_keywords
     (lower
        (''Built comprehensive passport application portal with machine learning '' @
         ''validation, reducing processing errors and improving user experience''))"
  by code_simp

lemma clean_hellogov_3:
  "\<not> any_in healthcare_keywords
     (lower
        (''Implemented SEO-optimized marketing website generating significant '' @
         ''revenue through strategic optimization and conversion tracking''))"
  by code_simp

lemma clean_hellogov_4:
  assumes "u \<in> set uptime_metrics"
  shows "\<not> any_in healthcare_keywords
     (lower
        (''Developed scalable architecture supporting government API '' @
         ''integrations with '' @
         u @
         '' reliability''))"
proof -
  have "list_all
     (\<lambda>u. \<not> any_in healthcare_keywords
        (lower
           (''Developed scalable architecture supporting government API '' @
            ''integrations with '' @
            u @
            '' reliability'')))
     uptime_metrics"
    by code_simp
  with assms show ?thesis
    unfolding list_all_iff by blast
qed

lemma clean_facebook_1:
  assumes "p \<in> set performance_improvements"
  shows "\<not> any_in healthcare_keywords
     (lower
        (''Developed Oculus VR ecosystem serving 2.8B+ users, implementing '' @
         ''real-time streaming with '' @
         str_int p @
         ''% performance improvement''))"
proof -
  have "list_all
     (\<lambda>p. \<not> any_in healthcare_keywords
        (lower
           (''Developed Oculus VR ecosystem serving 2.8B+ users, implementing '' @
            ''real-time streaming with '' @
            str_int p @
            ''% performance improvement'')))
     performance_improvements"
    by code_simp
  with assms show ?thesis
    unfolding list_all_iff by blast
qed

lemma clean_facebook_2:
  "\<not> any_in healthcare_keywords
     (lower
        (''Built scalable News Feed backend services optimizing content delivery '' @
         ''for billions of daily active users''))"
  by code_simp

lemma clean_facebook_3:
  assumes "r \<in> set reduction_metrics"
  shows "\<not> any_in healthcare_keywords
     (lower
        (''Architected GraphQL live query systems reducing content loading '' @
         ''latency by '' @
         str_int r @
         ''%''))"
proof -
  have "list_all
     (\<lambda>r. \<not> any_in healthcare_keywords
        (lower
           (''Architected GraphQL live query systems reducing content loading '' @
            ''latency by '' @
            str_int r @
            ''%'')))
     reduction_metrics"
    by code_simp
  with assms show ?thesis
    unfolding list_all_iff by blast
qed

lemma clean_facebook_4:
  "\<not> any_in healthcare_keywords
     (lower
        (''Led cross-platform development initiatives with focus on performance '' @
         ''and reliability''))"
  by code_simp

lemma clean_microsoft_1:
  assumes "u \<in> set uptime_metrics"
  shows "\<not> any_in healthcare_keywords
     (lower
        (''Developed enterprise communication applications for 300M+ Skype users '' @
         ''with '' @
         u @
         '' availability''))"
proof -
  have "list_all
     (\<lambda>u. \<not> any_in healthcare_keywords
        (lower
           (''Developed enterprise communication applications for 300M+ Skype users '' @
            ''with '' @
            u @
            '' availability'')))
     uptime_metrics"
    by code_simp
  with assms show ?thesis
    unfolding list_all_iff by blast
qed

lemma clean_microsoft_2:
  assumes "r \<in> set reduction_metrics"
  shows "\<not> any_in healthcare_keywords
     (lower
        (''Led Android Remote Desktop Client development reducing connection '' @
         ''failures by '' @
         str_int r @
         ''%''))"
proof -
  have "list_all
     (\<lambda>r. \<not> any_in healthcare_keywords
        (lower
           (''Led Android Remote Desktop Client development reducing connection '' @
            ''failures by '' @
            str_int r @
            ''%'')))
     reduction_metrics"
    by code_simp
  with assms show ?thesis
    unfolding list_all_iff by blast
qed

lemma clean_microsoft_3:
  "\<not> any_in healthcare_keywords
     (lower
        (''Implemented comprehensive telemetry systems improving application '' @
         ''stability and user satisfaction''))"
  by code_simp

lemma clean_microsoft_4:
  "\<not> any_in healthcare_keywords
     (lower
        (''Built cross-platform solutions with focus on enterprise security and '' @
         ''scalability''))"
  by code_simp

lemma clean_other_1:
  assumes "\<not> any_in healthcare_keywords (lower company)"
  shows "\<not> any_in healthcare_keywords
     (lower
        (''Developed scalable applications at '' @
         company @
         '' using modern frameworks and architectural patterns''))"
proof -
  have "\<not> any_in healthcare_keywords (lower ''Developed scalable applications at'')"
    and "\<not> any_in healthcare_keywords (lower ''using modern frameworks and architectural patterns'')"
    by code_simp+
  with assms have "\<not> any_in healthcare_keywords
     (lower (''Developed scalable applications at'' @ '' '' @ company @ '' '' @ ''using modern frameworks and architectural patterns''))"
    by (rule clean_embed)
  then show ?thesis
    by simp
qed

lemma clean_other_2:
  assumes "p \<in> set performance_improvements"
  shows "\<not> any_in healthcare_keywords
     (lower
        (''Implemented performance optimizations improving system efficiency by '' @
         str_int p @
         ''% and enhancing user experience''))"
proof -
  have "list_all
     (\<lambda>p. \<not> any_in healthcare_keywords
        (lower
           (''Implemented performance optimizations improving system efficiency by '' @
            str_int p @
            ''% and enhancing user experience'')))
     performance_improvements"
    by code_simp
  with assms show ?thesis
    unfolding list_all_iff by blast
qed

lemma clean_other_3:
  "\<not> any_in healthcare_keywords
     (lower
        (''Led technical initiatives and collaborated with cross-functional '' @
         ''teams for successful project delivery''))"
  by code_simp

lemma clean_other_4:
  assumes "u \<in> set uptime_metrics"
  shows "\<not> any_in healthcare_keywords
     (lower
        (''Delivered high-quality solutions with measurable business impact and '' @
         u @
         '' reliability''))"
proof -
  have "list_all
     (\<lambda>u. \<not> any_in healthcare_keywords
        (lower
           (''Delivered high-quality solutions with measurable business impact and '' @
            u @
            '' reliability'')))
     uptime_metrics"
    by code_simp
  with assms show ?thesis
    unfolding list_all_iff by blast
qed

lemma clean_generic_text:
  assumes "\<not> any_in healthcare_keywords (lower company)"
  shows "\<not> any_in healthcare_keywords
     (lower
        (''Delivered high-performance solutions at '' @
         company @
         '' with measurable business impact''))"
proof -
  have "\<not> any_in healthcare_keywords (lower ''Delivered high-performance solutions at'')"
    and "\<not> any_in healthcare_keywords (lower ''with measurable business impact'')"
    by code_simp+
  with assms have "\<not> any_in healthcare_keywords
     (lower (''Delivered high-performance solutions at'' @ '' '' @ company @ '' '' @ ''with measurable business impact''))"
    by (rule clean_embed)
  then show ?thesis
    by simp
qed

lemma fallback_bullets_clean:
  assumes "performance m \<in> set performance_improvements"
    and "uptime m \<in> set uptime_metrics"
    and "reduction m \<in> set reduction_metrics"
    and "\<not> any_in healthcare_keywords (lower company)"
  shows "list_all (\<lambda>b. \<not> any_in healthcare_keywords (lower b)) (fallback_bullets_for m company)"
  unfolding fallback_bullets_for_def
  using assms
  by (simp only: list.pred_inject split: if_split)
     (intro conjI impI TrueI clean_hellogov_1 clean_hellogov_2 clean_hellogov_3 clean_hellogov_4
        clean_facebook_1 clean_facebook_2 clean_facebook_3 clean_facebook_4
        clean_microsoft_1 clean_microsoft_2 clean_microsoft_3 clean_microsoft_4
        clean_other_1 clean_other_2 clean_other_3 clean_other_4)

lemma generic_bullet_clean:
  "\<not> any_in healthcare_keywords (lower company) \<Longrightarrow>
   \<not> any_in healthcare_keywords (lower (generic_bullet company))"
  unfolding generic_bullet_def by (rule clean_generic_text)

subsection \<open>Experience bullets\<close>

lemma filter_bullets_clean:
  assumes "filter_bullets bullets [] = Inr fs"
  shows "list_all (\<lambda>b. \<not> any_in healthcare_keywords (lower b)) fs"
  using filter_bullets_set [OF assms] by (auto simp: list_all_iff)

lemma experience_bullets_try_unflagged:
  assumes "experience_bullets_try loads reply company False False g = (Inr v, g')"
  shows "\<exists>fs. v = str_list (slice_to 4 (pad_bullets (generic_bullet company) fs))
            \<and> list_all (\<lambda>b. \<not> any_in healthcare_keywords (lower b)) fs"
  using assms
  by (auto simp: experience_bullets_try_def Let_def split_beta filter_bullets_clean
           split: sum.splits)

lemma experience_bullets_try_flagged:
  assumes "is_healthcare_experience \<or> has_healthcare_in_description"
  shows "fst (experience_bullets_try loads (Inr text) company is_healthcare_experience
               has_healthcare_in_description g)
       = safe_json_parse loads (Some (py_strip text)) (str_list (fst (get_fallback_bullets company g)))"
  using assms
  by (auto simp: experience_bullets_try_def Let_def split_beta safe_json_parse_def
           split: sum.splits)

lemma experience_bullets_try_error:
  "experience_bullets_try loads (Inl err) company f1 f2 g = (Inl err, g)"
  by (simp add: experience_bullets_try_def)

text \<open>The generator on a record that has its three keys.\<close>

lemma generate_experience_unconfigured:
  assumes "exp_company e = Some company"
  shows "fst (generate_experience_bullets_claude loads None jd e g)
       = Inr (str_list (fallback_bullets_for (fst (get_varied_metrics g)) company))"
  using assms
  by (simp add: generate_experience_bullets_claude_def subscript_def split_beta
        get_fallback_bullets_fst)

lemma generate_experience_configured:
  assumes "exp_company e = Some company" "exp_description e = Some description"
    and "exp_role e = Some role"
  shows "fst (generate_experience_bullets_claude loads (Some reply) jd e g)
       = (case experience_bullets_try loads reply company
                 (any_in healthcare_companies (lower company))
                 (any_in healthcare_description_keywords (lower description))
                 (snd (get_varied_metrics g)) of
            (Inl err, g') \<Rightarrow> Inr (str_list (fallback_bullets_for (fst (get_varied_metrics g')) company))
          | (Inr result, g') \<Rightarrow> Inr result)"
  using assms
  by (simp add: generate_experience_bullets_claude_def subscript_def split_beta Let_def
        get_fallback_bullets_fst split: prod.splits sum.splits)

lemma fallback_bullets_drawn_clean:
  assumes "\<not> any_in healthcare_keywords (lower company)"
  shows "list_all (\<lambda>b. \<not> any_in healthcare_keywords (lower b))
           (fallback_bullets_for (fst (get_varied_metrics g)) company)"
  using get_varied_metrics_in [of g] assms by (intro fallback_bullets_clean) simp_all

text \<open>
  Claim C1, as stated, fails. The employer \<^verbatim>\<open>Health Corp\<close> is not a recognised
  healthcare employer and the description of \<^const>\<open>exp_health_corp\<close> has no healthcare
  keyword. The service replies with one bullet, so two generic bullets are added. They
  name the employer, and with it the banned keyword \<^verbatim>\<open>health\<close>.
\<close>

theorem health_corp_filler_counterexample:
  "\<not> any_in healthcare_companies (lower ''Health Corp'')
   \<and> \<not> any_in healthcare_description_keywords (lower ''Built billing services'')
   \<and> fst (generate_experience_bullets_claude json_loads_sample (Some (Inr ''[\"a\"]''))
             profile_backend exp_health_corp (rng_const 0))
       = Inr (str_list
           [''a'',
            ''Delivered high-performance solutions at Health Corp with measurable business impact'',
            ''Delivered high-performance solutions at Health Corp with measurable business impact''])
   \<and> any_in healthcare_keywords
         (lower ''Delivered high-performance solutions at Health Corp with measurable business impact'')"
  by code_simp

text \<open>
  Claim C1, amended. Take an experience record with the keys company, description and
  role, whose company has no recognised healthcare employer marker and no banned
  keyword, and whose description has no healthcare-context keyword. Then, whatever the
  service does, the generator returns a list of 3 or 4 strings, none of which contains
  a banned keyword.
\<close>

theorem experience_bullets_truthful:
  assumes "exp_company e = Some company" and "exp_description e = Some description"
    and "exp_role e = Some role"
    and "\<not> any_in healthcare_companies (lower company)"
    and "\<not> any_in healthcare_description_keywords (lower description)"
    and "\<not> any_in healthcare_keywords (lower company)"
  shows "\<exists>bullets. fst (generate_experience_bullets_claude loads client jd e g) = Inr (str_list bullets)
           \<and> (length bullets = 3 \<or> length bullets = 4)
           \<and> list_all (\<lambda>b. \<not> any_in healthcare_keywords (lower b)) bullets"
proof (cases client)
  case None
  show ?thesis
    unfolding None generate_experience_unconfigured [OF assms(1)]
    using fallback_bullets_drawn_clean [OF assms(6)]
    by (intro exI conjI) (rule refl, simp add: length_fallback_bullets_for, assumption)
next
  case (Some reply)
  let ?attempt = "experience_bullets_try loads reply company False False (snd (get_varied_metrics g))"
  obtain r g' where r: "?attempt = (r, g')"
    by (cases ?attempt)
  show ?thesis
  proof (cases r)
    case (Inl err)
    then have "fst (generate_experience_bullets_claude loads client jd e g)
        = Inr (str_list (fallback_bullets_for (fst (get_varied_metrics g')) company))"
      using r assms(4,5)
      by (simp add: Some generate_experience_configured [OF assms(1,2,3)])
    then show ?thesis
      using fallback_bullets_drawn_clean [OF assms(6), of g']
      by (intro exI conjI) (assumption, simp add: length_fallback_bullets_for, assumption)
  next
    case (Inr v)
    with r obtain fs where v: "v = str_list (slice_to 4 (pad_bullets (generic_bullet company) fs))"
      and fs: "list_all (\<lambda>b. \<not> any_in healthcare_keywords (lower b)) fs"
      using experience_bullets_try_unflagged by blast
    have out: "fst (generate_experience_bullets_claude loads client jd e g)
        = Inr (str_list (slice_to 4 (pad_bullets (generic_bullet company) fs)))"
      using r Inr v assms(4,5)
      by (simp add: Some generate_experience_configured [OF assms(1,2,3)])
    have "list_all (\<lambda>b. \<not> any_in healthcare_keywords (lower b))
            (slice_to 4 (pad_bullets (generic_bullet company) fs))"
      using sliced_padded_set [of "generic_bullet company" fs] fs
        generic_bullet_clean [OF assms(6)]
      by (auto simp: list_all_iff)
    with out sliced_padded_length [of "generic_bullet company" fs] show ?thesis
      by blast
  qed
qed

theorem experience_bullets_truthful_witness:
  "exp_company exp_postgres = Some ''Acme''
   \<and> exp_description exp_postgres = Some ''Tuned PostgreSQL queries''
   \<and> exp_role exp_postgres = Some ''Engineer''
   \<and> \<not> any_in healthcare_companies (lower ''Acme'')
   \<and> \<not> any_in healthcare_description_keywords (lower ''Tuned PostgreSQL queries'')
   \<and> \<not> any_in healthcare_keywords (lower ''Acme'')
   \<and> (\<exists>bullets.
         fst (generate_experience_bullets_claude json_loads_sample (Some (Inr ''[\"a\"]''))
               profile_backend exp_postgres (rng_const 0)) = Inr (str_list bullets)
         \<and> (length bullets = 3 \<or> length bullets = 4)
         \<and> list_all (\<lambda>b. \<not> any_in healthcare_keywords (lower b)) bullets)"
proof -
  have 1: "exp_company exp_postgres = Some ''Acme''"
    and 2: "exp_description exp_postgres = Some ''Tuned PostgreSQL queries''"
    and 3: "exp_role exp_postgres = Some ''Engineer''"
    by (simp_all add: exp_postgres_def)
  have 4: "\<not> any_in healthcare_companies (lower ''Acme'')"
    and 5: "\<not> any_in healthcare_description_keywords (lower ''Tuned PostgreSQL queries'')"
    and 6: "\<not> any_in healthcare_keywords (lower ''Acme'')"
    by code_simp+
  from experience_bullets_truthful [OF 1 2 3 4 5 6] 1 2 3 4 5 6 show ?thesis
    by blast
qed

text \<open>
  Claim C5, as stated, fails. \<^const>\<open>exp_midato\<close> is flagged as healthcare by its
  employer, so the reply is returned as the normaliser gives it: a reply with one
  bullet comes back as a list of one string.
\<close>

theorem flagged_record_one_bullet_counterexample:
  "any_in healthcare_companies (lower ''Midato Health'')
   \<and> fst (generate_experience_bullets_claude json_loads_sample (Some (Inr ''[\"a\"]''))
             profile_backend exp_midato (rng_const 0))
       = Inr (str_list [''a''])"
  by code_simp

text \<open>
  Claim C5, amended. Take an experience record with the keys company, description and
  role. If it is not flagged as healthcare (neither by its employer nor by its
  description), the generator returns a list of 3 or 4 strings. If the client is not
  configured or the request fails, it returns the 4 fallback strings. If the record is
  flagged and the service replies, it returns the normalised reply as it is, whatever
  its shape.
\<close>

theorem experience_bullets_count:
  assumes "exp_company e = Some company" and "exp_description e = Some description"
    and "exp_role e = Some role"
  shows "(\<not> any_in healthcare_companies (lower company)
          \<and> \<not> any_in healthcare_description_keywords (lower description)
          \<longrightarrow> (\<exists>bullets. fst (generate_experience_bullets_claude loads client jd e g)
                            = Inr (str_list bullets)
                          \<and> (length bullets = 3 \<or> length bullets = 4)))
       \<and> (client = None \<or> (\<exists>err. client = Some (Inl err))
          \<longrightarrow> (\<exists>bullets. fst (generate_experience_bullets_claude loads client jd e g)
                            = Inr (str_list bullets)
                          \<and> length bullets = 4))
       \<and> (\<forall>text. client = Some (Inr text)
            \<and> (any_in healthcare_companies (lower company)
                \<or> any_in healthcare_description_keywords (lower description))
          \<longrightarrow> fst (generate_experience_bullets_claude loads client jd e g)
              = safe_json_parse loads (Some (py_strip text))
                  (str_list (fst (get_fallback_bullets company (snd (get_varied_metrics g))))))"
proof (intro conjI impI allI)
  assume unflagged: "\<not> any_in healthcare_companies (lower company)
          \<and> \<not> any_in healthcare_description_keywords (lower description)"
  show "\<exists>bullets. fst (generate_experience_bullets_claude loads client jd e g) = Inr (str_list bullets)
           \<and> (length bullets = 3 \<or> length bullets = 4)"
  proof (cases client)
    case None
    then show ?thesis
      using generate_experience_unconfigured [OF assms(1)]
      by (metis length_fallback_bullets_for)
  next
    case (Some reply)
    let ?attempt = "experience_bullets_try loads reply company False False (snd (get_varied_metrics g))"
    obtain r g' where r: "?attempt = (r, g')"
      by (cases ?attempt)
    show ?thesis
    proof (cases r)
      case (Inl err)
      then have "fst (generate_experience_bullets_claude loads client jd e g)
          = Inr (str_list (fallback_bullets_for (fst (get_varied_metrics g')) company))"
        using r unflagged by (simp add: Some generate_experience_configured [OF assms])
      then show ?thesis
        by (metis length_fallback_bullets_for)
    next
      case (Inr v)
      with r obtain fs where v: "v = str_list (slice_to 4 (pad_bullets (generic_bullet company) fs))"
        using experience_bullets_try_unflagged by blast
      have "fst (generate_experience_bullets_claude loads client jd e g)
          = Inr (str_list (slice_to 4 (pad_bullets (generic_bullet company) fs)))"
        using r Inr v unflagged by (simp add: Some generate_experience_configured [OF assms])
      with sliced_padded_length [of "generic_bullet company" fs] show ?thesis
        by blast
    qed
  qed
next
  assume "client = None \<or> (\<exists>err. client = Some (Inl err))"
  then show "\<exists>bullets. fst (generate_experience_bullets_claude loads client jd e g) = Inr (str_list bullets)
           \<and> length bullets = 4"
  proof
    assume "client = None"
    then show ?thesis
      using generate_experience_unconfigured [OF assms(1)]
      by (metis length_fallback_bullets_for)
  next
    assume "\<exists>err. client = Some (Inl err)"
    then obtain err where "client = Some (Inl err)"
      by blast
    then have "fst (generate_experience_bullets_claude loads client jd e g)
        = Inr (str_list (fallback_bullets_for
             (fst (get_varied_metrics (snd (get_varied_metrics g)))) company))"
      by (simp add: generate_experience_configured [OF assms] experience_bullets_try_error)
    then show ?thesis
      by (metis length_fallback_bullets_for)
  qed
next
  fix reply_text
  assume a: "client = Some (Inr reply_text)
            \<and> (any_in healthcare_companies (lower company)
                \<or> any_in healthcare_description_keywords (lower description))"
  let ?f1 = "any_in healthcare_companies (lower company)"
  let ?f2 = "any_in healthcare_description_keywords (lower description)"
  let ?attempt = "experience_bullets_try loads (Inr reply_text) company ?f1 ?f2 (snd (get_varied_metrics g))"
  have t: "fst ?attempt = safe_json_parse loads (Some (py_strip reply_text))
                  (str_list (fst (get_fallback_bullets company (snd (get_varied_metrics g)))))"
    using a by (intro experience_bullets_try_flagged) simp
  obtain v where v: "safe_json_parse loads (Some (py_strip reply_text))
                  (str_list (fst (get_fallback_bullets company (snd (get_varied_metrics g))))) = Inr v"
    using safe_json_parse_returns by blast
  obtain g' where "?attempt = (Inr v, g')"
    using t v by (cases ?attempt) auto
  then show "fst (generate_experience_bullets_claude loads client jd e g)
              = safe_json_parse loads (Some (py_strip reply_text))
                  (str_list (fst (get_fallback_bullets company (snd (get_varied_metrics g)))))"
    using a v by (simp add: generate_experience_configured [OF assms])
qed

theorem experience_bullets_count_witness:
  "exp_company exp_postgres = Some ''Acme''
   \<and> exp_description exp_postgres = Some ''Tuned PostgreSQL queries''
   \<and> exp_role exp_postgres = Some ''Engineer''
   \<and> \<not> any_in healthcare_companies (lower ''Acme'')
   \<and> \<not> any_in healthcare_description_keywords (lower ''Tuned PostgreSQL queries'')
   \<and> (\<exists>bullets.
         fst (generate_experience_bullets_claude json_loads_sample (Some (Inr ''[1, 2]''))
               profile_backend exp_postgres (rng_const 0)) = Inr (str_list bullets)
         \<and> (length bullets = 3 \<or> length bullets = 4))"
proof -
  have 1: "exp_company exp_postgres = Some ''Acme''"
    and 2: "exp_description exp_postgres = Some ''Tuned PostgreSQL queries''"
    and 3: "exp_role exp_postgres = Some ''Engineer''"
    by (simp_all add: exp_postgres_def)
  have 4: "\<not> any_in healthcare_companies (lower ''Acme'')"
    and 5: "\<not> any_in healthcare_description_keywords (lower ''Tuned PostgreSQL queries'')"
    by code_simp+
  from experience_bullets_count [OF 1 2 3] 1 2 3 4 5 show ?thesis
    by blast
qed

subsection \<open>Project bullets\<close>

lemma project_bullets_try_error:
  "project_bullets_try loads (Inl err) project_name g = (Inl err, g)"
  by (simp add: project_bullets_try_def)

lemma project_bullets_try_reply:
  assumes "safe_json_parse loads (Some (py_strip reply_text))
             (str_list (fst (get_fallback_project_bullets project_name g))) = Inr result"
  shows "fst (project_bullets_try loads (Inr reply_text) project_name g)
       = (case result of
            JList xs \<Rightarrow>
              if 2 \<le> length xs then Inr (JList (take 2 xs))
              else Inr (str_list (fst (get_fallback_project_bullets project_name
                                        (snd (get_fallback_project_bullets project_name g)))))
          | _ \<Rightarrow> Inr (str_list (fst (get_fallback_project_bullets project_name
                                        (snd (get_fallback_project_bullets project_name g))))))"
  using assms
  by (simp add: project_bullets_try_def Let_def split_beta slice_to_def split: json.splits)

lemma generate_project_unconfigured:
  assumes "proj_name p = Some project_name"
  shows "fst (generate_project_bullets_claude loads None jd p g)
       = Inr (str_list (fallback_project_bullets_for (fst (get_varied_metrics g)) project_name))"
  using assms
  by (simp add: generate_project_bullets_claude_def subscript_def split_beta
        get_fallback_project_bullets_fst)

lemma generate_project_configured:
  assumes "proj_name p = Some project_name" and "proj_description p = Some description"
  shows "fst (generate_project_bullets_claude loads (Some reply) jd p g)
       = (case project_bullets_try loads reply project_name (snd (get_varied_metrics g)) of
            (Inl err, g') \<Rightarrow>
              Inr (str_list (fallback_project_bullets_for (fst (get_varied_metrics g')) project_name))
          | (Inr result, g') \<Rightarrow> Inr result)"
  using assms
  by (simp add: generate_project_bullets_claude_def subscript_def split_beta Let_def
        get_fallback_project_bullets_fst split: prod.splits sum.splits)

lemma generate_project_reply:
  assumes "proj_name p = Some project_name" and "proj_description p = Some description"
    and "safe_json_parse loads (Some (py_strip reply_text))
           (str_list (fst (get_fallback_project_bullets project_name (snd (get_varied_metrics g)))))
         = Inr result"
  shows "fst (generate_project_bullets_claude loads (Some (Inr reply_text)) jd p g)
       = (case result of
            JList xs \<Rightarrow>
              if 2 \<le> length xs then Inr (JList (take 2 xs))
              else Inr (str_list (fst (get_fallback_project_bullets project_name
                     (snd (get_fallback_project_bullets project_name (snd (get_varied_metrics g)))))))
          | _ \<Rightarrow> Inr (str_list (fst (get_fallback_project_bullets project_name
                     (snd (get_fallback_project_bullets project_name (snd (get_varied_metrics g))))))))"
proof -
  let ?attempt = "project_bullets_try loads (Inr reply_text) project_name (snd (get_varied_metrics g))"
  note t = project_bullets_try_reply [OF assms(3)]
  obtain r g' where r: "?attempt = (r, g')"
    by (cases ?attempt)
  with t obtain v where v: "r = Inr v"
    by (cases r) (auto split: json.splits if_splits)
  have "fst (generate_project_bullets_claude loads (Some (Inr reply_text)) jd p g) = Inr v"
    using r v by (simp add: generate_project_configured [OF assms(1,2)])
  also have "Inr v = fst ?attempt"
    using r v by simp
  also note t
  finally show ?thesis .
qed

lemma two_elements: "length xs = 2 \<Longrightarrow> \<exists>x y. xs = [x, y]"
  by (cases xs; cases "tl xs") auto

lemma fallback_pair_two: "\<exists>x y. str_list (fst (get_fallback_project_bullets n g)) = JList [x, y]"
  by (simp add: get_fallback_project_bullets_fst fallback_project_bullets_for_def str_list_def)

text \<open>
  Claim C3, as stated, fails. The normalised reply is a list of three strings, which is
  not a list of exactly 2 strings; the generator returns its first two elements and
  not the fallback pair.
\<close>

theorem three_bullets_truncated_counterexample:
  "safe_json_parse json_loads_sample (Some (py_strip ''[\"a\", \"b\", \"c\"]''))
     (str_list (fst (get_fallback_project_bullets ''Demo'' (snd (get_varied_metrics (rng_const 0))))))
     = Inr (JList [JStr ''a'', JStr ''b'', JStr ''c''])
   \<and> fst (generate_project_bullets_claude json_loads_sample (Some (Inr ''[\"a\", \"b\", \"c\"]''))
            profile_backend proj_demo (rng_const 0))
     = Inr (JList [JStr ''a'', JStr ''b''])
   \<and> fst (generate_project_bullets_claude json_loads_sample (Some (Inr ''[\"a\", \"b\", \"c\"]''))
            profile_backend proj_demo (rng_const 0))
     \<noteq> Inr (str_list (fst (get_fallback_project_bullets ''Demo'' (snd (get_varied_metrics (rng_const 0))))))"
  by code_simp

text \<open>
  Claim C3, amended. Take a project record with the keys name and description. The
  generator always returns a list of exactly 2 elements. When the normalised reply is a
  list of at least 2 elements, these are its first two elements, whatever they are.
  When the normalised reply is anything else, the generator returns a fallback pair of
  the project.
\<close>

theorem project_bullets_shape:
  assumes "proj_name p = Some project_name" and "proj_description p = Some description"
  shows "(\<exists>x y. fst (generate_project_bullets_claude loads client jd p g) = Inr (JList [x, y]))
       \<and> (\<forall>reply_text xs.
             client = Some (Inr reply_text)
             \<and> safe_json_parse loads (Some (py_strip reply_text))
                 (str_list (fst (get_fallback_project_bullets project_name (snd (get_varied_metrics g)))))
               = Inr (JList xs)
             \<and> 2 \<le> length xs
           \<longrightarrow> fst (generate_project_bullets_claude loads client jd p g) = Inr (JList (take 2 xs)))
       \<and> (\<forall>reply_text result.
             client = Some (Inr reply_text)
             \<and> safe_json_parse loads (Some (py_strip reply_text))
                 (str_list (fst (get_fallback_project_bullets project_name (snd (get_varied_metrics g)))))
               = Inr result
             \<and> (\<forall>xs. result = JList xs \<longrightarrow> length xs < 2)
           \<longrightarrow> (\<exists>g'. fst (generate_project_bullets_claude loads client jd p g)
                       = Inr (str_list (fst (get_fallback_project_bullets project_name g')))))"
proof (intro conjI allI impI)
  show "\<exists>x y. fst (generate_project_bullets_claude loads client jd p g) = Inr (JList [x, y])"
  proof (cases client)
    case None
    then show ?thesis
      using generate_project_unconfigured [OF assms(1)]
      by (simp add: fallback_project_bullets_for_def str_list_def)
  next
    case (Some reply)
    show ?thesis
    proof (cases reply)
      case (Inl err)
      then show ?thesis
        by (simp add: Some generate_project_configured [OF assms] project_bullets_try_error
              fallback_project_bullets_for_def str_list_def)
    next
      case (Inr reply_text)
      obtain result where res: "safe_json_parse loads (Some (py_strip reply_text))
           (str_list (fst (get_fallback_project_bullets project_name (snd (get_varied_metrics g)))))
         = Inr result"
        using safe_json_parse_returns by blast
      note out = generate_project_reply [OF assms res, of jd]
      show ?thesis
      proof (cases "\<exists>xs. result = JList xs \<and> 2 \<le> length xs")
        case True
        then obtain xs where xs: "result = JList xs" "2 \<le> length xs"
          by blast
        then have "length (take 2 xs) = 2"
          by simp
        then obtain x y where "take 2 xs = [x, y]"
          using two_elements by blast
        with out xs show ?thesis
          by (simp add: Some Inr)
      next
        case False
        then have "fst (generate_project_bullets_claude loads client jd p g)
          = Inr (str_list (fst (get_fallback_project_bullets project_name
                     (snd (get_fallback_project_bullets project_name (snd (get_varied_metrics g)))))))"
          using out by (auto simp: Some Inr split: json.splits)
        then show ?thesis
          using fallback_pair_two by simp
      qed
    qed
  qed
next
  fix reply_text xs
  assume a: "client = Some (Inr reply_text)
             \<and> safe_json_parse loads (Some (py_strip reply_text))
                 (str_list (fst (get_fallback_project_bullets project_name (snd (get_varied_metrics g)))))
               = Inr (JList xs)
             \<and> 2 \<le> length xs"
  then have res: "safe_json_parse loads (Some (py_strip reply_text))
                 (str_list (fst (get_fallback_project_bullets project_name (snd (get_varied_metrics g)))))
               = Inr (JList xs)"
    by simp
  from generate_project_reply [OF assms res, of jd] a
  show "fst (generate_project_bullets_claude loads client jd p g) = Inr (JList (take 2 xs))"
    by simp
next
  fix reply_text result
  assume a: "client = Some (Inr reply_text)
             \<and> safe_json_parse loads (Some (py_strip reply_text))
                 (str_list (fst (get_fallback_project_bullets project_name (snd (get_varied_metrics g)))))
               = Inr result
             \<and> (\<forall>xs. result = JList xs \<longrightarrow> length xs < 2)"
  then have res: "safe_json_parse loads (Some (py_strip reply_text))
                 (str_list (fst (get_fallback_project_bullets project_name (snd (get_varied_metrics g)))))
               = Inr result"
    by simp
  from generate_project_reply [OF assms res, of jd] a
  have "fst (generate_project_bullets_claude loads client jd p g)
          = Inr (str_list (fst (get_fallback_project_bullets project_name
                     (snd (get_fallback_project_bullets project_name (snd (get_varied_metrics g)))))))"
    by (auto split: json.splits)
  then show "\<exists>g'. fst (generate_project_bullets_claude loads client jd p g)
                       = Inr (str_list (fst (get_fallback_project_bullets project_name g')))"
    by blast
qed

theorem project_bullets_shape_witness:
  "proj_name proj_demo = Some ''Demo'' \<and> proj_description proj_demo = Some ''A database API server''
   \<and> safe_json_parse json_loads_sample (Some (py_strip ''[\"a\", \"b\", \"c\"]''))
       (str_list (fst (get_fallback_project_bullets ''Demo'' (snd (get_varied_metrics (rng_const 0))))))
       = Inr (JList [JStr ''a'', JStr ''b'', JStr ''c''])
   \<and> 2 \<le> length [JStr ''a'', JStr ''b'', JStr ''c'']
   \<and> fst (generate_project_bullets_claude json_loads_sample (Some (Inr ''[\"a\", \"b\", \"c\"]''))
            profile_backend proj_demo (rng_const 0))
       = Inr (JList (take 2 [JStr ''a'', JStr ''b'', JStr ''c'']))"
proof -
  have 1: "proj_name proj_demo = Some ''Demo''"
    and 2: "proj_description proj_demo = Some ''A database API server''"
    by (simp_all add: proj_demo_def)
  have 3: "safe_json_parse json_loads_sample (Some (py_strip ''[\"a\", \"b\", \"c\"]''))
       (str_list (fst (get_fallback_project_bullets ''Demo'' (snd (get_varied_metrics (rng_const 0))))))
       = Inr (JList [JStr ''a'', JStr ''b'', JStr ''c''])"
    by code_simp
  have 4: "2 \<le> length [JStr ''a'', JStr ''b'', JStr ''c'']"
    by simp
  from project_bullets_shape [OF 1 2, of json_loads_sample
      "Some (Inr ''[\"a\", \"b\", \"c\"]'')" profile_backend "rng_const 0"] 3 4
  have "fst (generate_project_bullets_claude json_loads_sample (Some (Inr ''[\"a\", \"b\", \"c\"]''))
            profile_backend proj_demo (rng_const 0))
       = Inr (JList (take 2 [JStr ''a'', JStr ''b'', JStr ''c'']))"
    by blast
  with 1 2 3 4 show ?thesis
    by blast
qed

subsection \<open>Fallback content\<close>

text \<open>
  Claim C4, as stated, fails. With the client not configured, two runs on the same
  record whose random draws differ return different fallback bullets: the metrics in
  them are drawn anew by \<^const>\<open>get_varied_metrics\<close> in every run.
\<close>

theorem fallback_bullets_vary_counterexample:
  "fst (generate_experience_bullets_claude json_loads_sample None profile_backend exp_postgres
          (rng_const 0))
   \<noteq> fst (generate_experience_bullets_claude json_loads_sample None profile_backend exp_postgres
          (rng_const 1))"
  by code_simp

text \<open>
  Claim C4, amended. When the client is not configured or the request fails, the
  summary, the tech stack and the skills are the fallback of the role category, the
  same in every run. The experience and project bullets are the fixed texts for the
  employer or the project name, filled with the metrics drawn in that run (the first
  draw when the client is not configured, the second one when the request fails): any
  two such runs that draw the same metrics return the same bullets. Runs that draw
  different metrics can return different bullets, as above, and need not.
\<close>

theorem fallback_content_determined:
  assumes "client = None \<or> client = Some (Inl err)"
  shows "generate_professional_summary_claude client jd
           = get_fallback_summary (get_or (jd_role_type jd) ''Software Engineer'')
       \<and> extract_tech_stack_claude client description project_name jd
           = get_fallback_tech_stack (get_or (jd_role_type jd) ''fullstack'')
       \<and> generate_skills_section_claude loads client jd all_experiences all_projects
           = get_fallback_skills (get_or (jd_role_type jd) ''fullstack'')
       \<and> (exp_company e = Some company \<and> exp_description e = Some d \<and> exp_role e = Some role
          \<longrightarrow> fst (generate_experience_bullets_claude loads client jd e g)
              = Inr (str_list (fallback_bullets_for
                   (fst (get_varied_metrics (if client = None then g else snd (get_varied_metrics g))))
                   company)))
       \<and> (proj_name p = Some n \<and> proj_description p = Some d'
          \<longrightarrow> fst (generate_project_bullets_claude loads client jd p g)
              = Inr (str_list (fallback_project_bullets_for
                   (fst (get_varied_metrics (if client = None then g else snd (get_varied_metrics g))))
                   n)))
       \<and> (\<forall>h. exp_company e = Some company \<and> exp_description e = Some d \<and> exp_role e = Some role
              \<and> fst (get_varied_metrics (if client = None then g else snd (get_varied_metrics g)))
                = fst (get_varied_metrics (if client = None then h else snd (get_varied_metrics h)))
          \<longrightarrow> fst (generate_experience_bullets_claude loads client jd e g)
              = fst (generate_experience_bullets_claude loads client jd e h))
       \<and> (\<forall>h. proj_name p = Some n \<and> proj_description p = Some d'
              \<and> fst (get_varied_metrics (if client = None then g else snd (get_varied_metrics g)))
                = fst (get_varied_metrics (if client = None then h else snd (get_varied_metrics h)))
          \<longrightarrow> fst (generate_project_bullets_claude loads client jd p g)
              = fst (generate_project_bullets_claude loads client jd p h))"
  using assms
proof
  assume c: "client = None"
  show ?thesis
    unfolding c
    by (simp add: generate_professional_summary_claude_def extract_tech_stack_claude_def
          generate_skills_section_claude_def generate_experience_unconfigured
          generate_project_unconfigured)
next
  assume c: "client = Some (Inl err)"
  show ?thesis
    unfolding c
    by (simp add: generate_professional_summary_claude_def extract_tech_stack_claude_def
          generate_skills_section_claude_def generate_experience_configured
          generate_project_configured experience_bullets_try_error project_bullets_try_error)
qed

theorem fallback_content_determined_witness:
  "generate_professional_summary_claude None profile_backend = get_fallback_summary ''backend''
   \<and> extract_tech_stack_claude None [] [] profile_backend = ''Node.js | PostgreSQL | REST APIs''
   \<and> fst (generate_experience_bullets_claude json_loads_sample None profile_backend exp_postgres
            (rng_const 0))
     = Inr (str_list (fallback_bullets_for
          \<lparr>performance = 25, uptime = ''99.9%'', reduction = 15\<rparr> ''Acme''))
   \<and> fst (get_varied_metrics (rng_const 0)) = fst (get_varied_metrics (rng_const 90))
   \<and> fst (generate_experience_bullets_claude json_loads_sample None profile_backend exp_postgres
            (rng_const 0))
     = fst (generate_experience_bullets_claude json_loads_sample None profile_backend exp_postgres
            (rng_const 90))"
proof -
  have c: "(None :: client) = None \<or> None = Some (Inl GatewayError)"
    by simp
  have r: "get_or (jd_role_type profile_backend) ''Software Engineer'' = ''backend''"
    "get_fallback_tech_stack (get_or (jd_role_type profile_backend) ''fullstack'')
       = ''Node.js | PostgreSQL | REST APIs''"
    "fst (get_varied_metrics (rng_const 0)) = \<lparr>performance = 25, uptime = ''99.9%'', reduction = 15\<rparr>"
    "exp_company exp_postgres = Some ''Acme'' \<and> exp_description exp_postgres = Some ''Tuned PostgreSQL queries''
       \<and> exp_role exp_postgres = Some ''Engineer''"
    by code_simp+
  have m: "fst (get_varied_metrics (rng_const 0)) = fst (get_varied_metrics (rng_const 90))"
    by code_simp
  note t = fallback_content_determined [OF c, of profile_backend "[]" "[]" json_loads_sample "[]" "[]"
      exp_postgres "''Acme''" "''Tuned PostgreSQL queries''" "''Engineer''" "rng_const 0"
      proj_demo "''Demo''" "''A database API server''"]
  from t r have "generate_professional_summary_claude None profile_backend = get_fallback_summary ''backend''
   \<and> extract_tech_stack_claude None [] [] profile_backend = ''Node.js | PostgreSQL | REST APIs''
   \<and> fst (generate_experience_bullets_claude json_loads_sample None profile_backend exp_postgres
            (rng_const 0))
     = Inr (str_list (fallback_bullets_for
          \<lparr>performance = 25, uptime = ''99.9%'', reduction = 15\<rparr> ''Acme''))"
    by simp
  moreover from t [unfolded if_P [OF refl]]
  have "\<forall>h. exp_company exp_postgres = Some ''Acme''
        \<and> exp_description exp_postgres = Some ''Tuned PostgreSQL queries''
        \<and> exp_role exp_postgres = Some ''Engineer''
        \<and> fst (get_varied_metrics (rng_const 0)) = fst (get_varied_metrics h)
      \<longrightarrow> fst (generate_experience_bullets_claude json_loads_sample None profile_backend
                 exp_postgres (rng_const 0))
          = fst (generate_experience_bullets_claude json_loads_sample None profile_backend
                 exp_postgres h)"
    by blast
  with r m
  have "fst (generate_experience_bullets_claude json_loads_sample None profile_backend exp_postgres
            (rng_const 0))
     = fst (generate_experience_bullets_claude json_loads_sample None profile_backend exp_postgres
            (rng_const 90))"
    by blast
  ultimately show ?thesis
    using m by blast
qed

end
